theory Spec2Isabelle
  imports Main "HOL-Library.AList" "HOL-Library.Sublist"
begin

section \<open>Data model of the plugins service\<close>

text \<open>
  The service (class \<open>PluginsService\<close>) is embedded function by function. A JavaScript
  object used as a dictionary is an association list of its own properties. A field that
  may be \<open>undefined\<close> is an \<open>option\<close>. The truthiness tests of the source are written out:
  an object or a function is truthy, a string is truthy iff it is not empty.
\<close>

type_synonym 'v dict = "(string \<times> 'v) list"
type_synonym path = string

text \<open>
  What \<open>object[key]\<close> reads on such an object: its own property, else the member of that
  name that every object inherits from \<open>Object.prototype\<close> (a function, or the prototype
  itself for \<open>__proto__\<close>), else \<open>undefined\<close>.
\<close>

datatype 'v property = Own 'v | Inherited string | Undefined

definition object_prototype_members :: "string list" where
  "object_prototype_members =
     [''constructor'', ''__defineGetter__'', ''__defineSetter__'', ''hasOwnProperty'',
      ''__lookupGetter__'', ''__lookupSetter__'', ''isPrototypeOf'', ''propertyIsEnumerable'',
      ''toString'', ''valueOf'', ''__proto__'', ''toLocaleString'']"

definition js_get :: "'v dict \<Rightarrow> string \<Rightarrow> 'v property" where
  "js_get d key =
     (case map_of d key of
        Some v \<Rightarrow> Own v
      | None \<Rightarrow> if key \<in> set object_prototype_members then Inherited key else Undefined)"

text \<open>
  The own properties after \<open>object[key] = v\<close>: the key is overwritten in place or appended.
  Without an own property of that name, an assignment to \<open>__proto__\<close> goes to the inherited
  setter and leaves the own properties as they are. \<open>delete object[key]\<close> is \<open>AList.delete\<close>.
\<close>

definition js_set :: "string \<Rightarrow> 'v \<Rightarrow> 'v dict \<Rightarrow> 'v dict" where
  "js_set key v d =
     (if key = ''__proto__'' \<and> map_of d key = None then d else AList.update key v d)"

datatype error =
    ErrorsFail string   \<comment> \<open>raised by \<open>this.$errors.fail(message)\<close>\<close>
  | Rejected string     \<comment> \<open>an exception or rejected promise of a collaborator\<close>

text \<open>The \<open>nativescript\<close> key of a package's own \<open>package.json\<close>.\<close>

record nativescript_data =
  ns_platforms :: "string dict option"
  ns_variables :: "string dict option"

record package_json =
  pj_name :: string
  pj_version :: string
  pj_dependencies :: "string dict option"
  pj_devDependencies :: "string dict option"
  pj_nativescript :: "nativescript_data option"

text \<open>
  What a path of the file system holds. \<open>PluginsBuildData\<close> is a per-platform ledger file
  (\<open>IDictionary<IStringDictionary>\<close>: plugin name to file path to digest); \<open>Unparsable\<close> is a
  file whose text is not valid JSON. Documents are typed: valid JSON of a shape other than
  a package's metadata or a ledger is not a value of this type.
\<close>

datatype fs_node =
    Directory
  | PackageJsonFile package_json
  | PluginsBuildData "string dict dict"
  | Unparsable

type_synonym filesystem = "path \<rightharpoonup> fs_node"

text \<open>The observable calls the service makes on its collaborators, in order.\<close>

datatype event =
    PmInstall string path           \<comment> \<open>\<open>$packageManager.install(specifier, dir, _)\<close>\<close>
  | PmUninstall string path         \<comment> \<open>\<open>$packageManager.uninstall(name, _, dir)\<close>\<close>
  | PrepareNative string string     \<comment> \<open>\<open>platformProjectService.preparePluginNativeCode\<close>: platform, plugin name\<close>
  | RemoveNative string string      \<comment> \<open>\<open>platformProjectService.removePluginNativeCode\<close>: platform, plugin name\<close>
  | WriteJson path fs_node          \<comment> \<open>\<open>$fs.writeJson(path, content)\<close>\<close>
  | RmRf path                       \<comment> \<open>\<open>shelljs.rm("-rf", path)\<close>\<close>
  | EnsureDirectoryExists path
  | LogInfo string
  | LogWarn string
  | LogTrace "string list"

record world =
  fs :: filesystem
  events :: "event list"

text \<open>
  A function that only reads the file system returns a value or raises (\<open>'a rd\<close>). An
  operation that also acts runs on the world (\<open>'a io\<close>); the world it leaves is kept when
  it raises, so what was done before a failure stays visible.
\<close>

type_synonym 'a rd = "filesystem \<Rightarrow> error + 'a"
type_synonym 'a io = "world \<Rightarrow> (error + 'a) \<times> world"

definition rd_return :: "'a \<Rightarrow> 'a rd" where
  "rd_return a f = Inr a"

definition rd_bind :: "'a rd \<Rightarrow> ('a \<Rightarrow> 'b rd) \<Rightarrow> 'b rd" where
  "rd_bind m k f = (case m f of Inl e \<Rightarrow> Inl e | Inr a \<Rightarrow> k a f)"

definition io_return :: "'a \<Rightarrow> 'a io" where
  "io_return a w = (Inr a, w)"

definition io_throw :: "error \<Rightarrow> 'a io" where
  "io_throw e w = (Inl e, w)"

definition io_bind :: "'a io \<Rightarrow> ('a \<Rightarrow> 'b io) \<Rightarrow> 'b io" where
  "io_bind m k w = (case m w of (Inl e, w') \<Rightarrow> (Inl e, w') | (Inr a, w') \<Rightarrow> k a w')"

definition io_lift :: "'a rd \<Rightarrow> 'a io" where
  "io_lift r w = (r (fs w), w)"

definition io_emit :: "event \<Rightarrow> unit io" where
  "io_emit ev w = (Inr (), w\<lparr>events := events w @ [ev]\<rparr>)"

text \<open>
  A call of a native hook: the call is recorded and the hook returns or raises. What a
  hook does to the native project tree is outside the model.
\<close>

definition io_call :: "event \<Rightarrow> 'a rd \<Rightarrow> 'a io" where
  "io_call ev r w = (r (fs w), w\<lparr>events := events w @ [ev]\<rparr>)"

text \<open>
  A call of the package manager: the call is recorded, then the package manager acts on
  the file system and returns or raises.
\<close>

definition io_external :: "event \<Rightarrow> (filesystem \<Rightarrow> (error + 'a) \<times> filesystem) \<Rightarrow> 'a io" where
  "io_external ev h w =
     (case h (fs w) of (r, f') \<Rightarrow> (r, \<lparr>fs = f', events = events w @ [ev]\<rparr>))"

record project_data =
  projectDir :: path
  platformsDir :: path

record plugin_data =
  pd_name :: string
  pd_version :: string
  pd_fullPath :: path
  pd_isPlugin :: bool
  pd_pluginPlatformsFolderPath :: "string \<Rightarrow> path"
  pd_platformsDataService :: "string dict option"
  pd_pluginVariables :: "string dict option"

type_synonym native_hook = "plugin_data \<Rightarrow> project_data \<Rightarrow> unit rd"

record platform_data =
  projectRoot :: path
  appDestinationDirectoryPath :: path
  frameworkPackageName :: string
  hook_preparePluginNativeCode :: native_hook
  hook_removePluginNativeCode :: native_hook

record framework_data =
  fd_version :: string

text \<open>What \<open>getNodeModuleData\<close> returns, and what \<open>convertToPluginData\<close> reads of its argument.\<close>

record node_module_data =
  nm_name :: string
  nm_version :: string
  nm_fullPath :: path
  nm_isPlugin :: bool
  nm_moduleInfo :: "nativescript_data option"

record cache_data =
  cd_name :: string
  cd_version :: string
  cd_directory :: "path option"
  cd_nativescript :: "nativescript_data option"
  cd_moduleInfo :: "nativescript_data option"

record npm_options =
  o_disableNpmInstall :: bool
  o_frameworkPath :: "path option"
  o_ignoreScripts :: bool
  o_path :: "path option"
  o_save :: bool

record cli_options =
  opt_force :: bool
  opt_disableNpmInstall :: bool
  opt_frameworkPath :: "path option"
  opt_ignoreScripts :: bool
  opt_path :: "path option"

text \<open>
  The injected collaborators, the imported libraries and the imported constants, none of
  which is defined in the service's file: they are parameters of every operation.
  \<open>pm_uninstall\<close> is always called with \<open>save: true\<close>. \<open>require_resolve\<close> is \<open>None\<close> where
  Node's \<open>require.resolve\<close> raises; \<open>getNSValue\<close> is \<open>None\<close> where it returns \<open>undefined\<close>;
  \<open>semver_gt\<close> is \<open>semver.gt\<close> on two strings: it raises on a string that is no semantic
  version. \<open>hasChangesInShasums_inherited\<close> is the hash service's answer when the value handed
  to it as the old digest-set is the inherited member of the given name.
\<close>

record services =
  platformNames :: "string list"
  getPlatformData :: "string \<Rightarrow> project_data \<Rightarrow> platform_data"
  getNSValue :: "path \<Rightarrow> string \<Rightarrow> filesystem \<Rightarrow> framework_data option"
  enumerateFilesInDirectorySync :: "path \<Rightarrow> filesystem \<Rightarrow> path list"
  generateHashes :: "path list \<Rightarrow> filesystem \<Rightarrow> string dict"
  hasChangesInShasums :: "string dict \<Rightarrow> string dict \<Rightarrow> bool"
  hasChangesInShasums_inherited :: "string \<Rightarrow> string dict \<Rightarrow> bool"
  readDirectory :: "path \<Rightarrow> filesystem \<Rightarrow> string list"
  pm_install :: "string \<Rightarrow> path \<Rightarrow> npm_options \<Rightarrow> filesystem \<Rightarrow> (error + string) \<times> filesystem"
  pm_uninstall :: "string \<Rightarrow> path \<Rightarrow> filesystem \<Rightarrow> (error + unit) \<times> filesystem"
  semver_gt :: "string \<Rightarrow> string \<Rightarrow> error + bool"
  path_resolve :: "string \<Rightarrow> path"
  require_resolve :: "string \<Rightarrow> path \<Rightarrow> filesystem \<Rightarrow> path option"
  cli :: cli_options
  APP_FOLDER_NAME :: string
  PLUGINS_BUILD_DATA_FILENAME :: string

section \<open>Strings and paths\<close>

text \<open>\<open>String.prototype.toLowerCase\<close> on ASCII: a capital letter gets bit 5 set.\<close>

definition toLowerCase_char :: "char \<Rightarrow> char" where
  "toLowerCase_char c =
     (if 65 \<le> (of_char c :: nat) \<and> (of_char c :: nat) \<le> 90
      then (case c of Char b0 b1 b2 b3 b4 b5 b6 b7 \<Rightarrow> Char b0 b1 b2 b3 b4 True b6 b7)
      else c)"

definition toLowerCase :: "string \<Rightarrow> string" where
  "toLowerCase s = map toLowerCase_char s"

text \<open>\<open>s.indexOf(sub) !== -1\<close>.\<close>

fun string_includes :: "string \<Rightarrow> string \<Rightarrow> bool" where
  "string_includes sub [] = (sub = [])"
| "string_includes sub (c # cs) = (prefix sub (c # cs) \<or> string_includes sub cs)"

text \<open>
  \<open>path.join\<close>, \<open>path.basename\<close> and \<open>path.dirname\<close> on absolute paths whose segments need
  no normalisation.
\<close>

fun path_join :: "string list \<Rightarrow> path" where
  "path_join [] = ''.''"
| "path_join [a] = a"
| "path_join (a # b # rest) = a @ ''/'' @ path_join (b # rest)"

definition path_basename :: "path \<Rightarrow> string" where
  "path_basename p = rev (takeWhile (\<lambda>c. c \<noteq> CHR ''/'') (rev p))"

definition path_dirname :: "path \<Rightarrow> path" where
  "path_dirname p =
     (let d = rev (drop 1 (dropWhile (\<lambda>c. c \<noteq> CHR ''/'') (rev p)))
      in if d = [] then (if take 1 p = ''/'' then ''/'' else ''.'') else d)"

section \<open>File-system primitives\<close>

text \<open>
  \<open>$fs.readJson\<close>, read at the type its caller expects: it raises when the file is absent,
  is a directory or holds text that is not valid JSON. A document of the other kind at the
  path is outside the typed model: the typed reader raises there too, where the code would
  go on with whatever the parser returned.
\<close>

definition readJson_package :: "path \<Rightarrow> package_json rd" where
  "readJson_package p f =
     (case f p of
        Some (PackageJsonFile c) \<Rightarrow> Inr c
      | _ \<Rightarrow> Inl (Rejected (''cannot read '' @ p)))"

definition readJson_hashes :: "path \<Rightarrow> (string dict dict) rd" where
  "readJson_hashes p f =
     (case f p of
        Some (PluginsBuildData d) \<Rightarrow> Inr d
      | _ \<Rightarrow> Inl (Rejected (''cannot read '' @ p)))"

definition writeJson :: "path \<Rightarrow> fs_node \<Rightarrow> unit io" where
  "writeJson p content w =
     (Inr (), \<lparr>fs = (fs w)(p \<mapsto> content), events = events w @ [WriteJson p content]\<rparr>)"

definition ensureDirectoryExists :: "path \<Rightarrow> unit io" where
  "ensureDirectoryExists p w =
     (Inr (), \<lparr>fs = (if fs w p = None then (fs w)(p \<mapsto> Directory) else fs w),
               events = events w @ [EnsureDirectoryExists p]\<rparr>)"

text \<open>\<open>shelljs.rm("-rf", p)\<close>: \<open>p\<close> and everything below it is gone; an absent \<open>p\<close> is no error.\<close>

definition shelljs_rm_rf :: "path \<Rightarrow> unit io" where
  "shelljs_rm_rf p w =
     (Inr (), \<lparr>fs = (\<lambda>q. if q = p \<or> prefix (p @ ''/'') q then None else fs w q),
               events = events w @ [RmRf p]\<rparr>)"

definition getNodeModulesPath :: "path \<Rightarrow> path" where
  "getNodeModulesPath dir = path_join [dir, ''node_modules'']"

definition getPackageJsonFilePath :: "path \<Rightarrow> path" where
  "getPackageJsonFilePath dir = path_join [dir, ''package.json'']"

definition getPackageJsonFilePathForModule :: "services \<Rightarrow> string \<Rightarrow> path \<Rightarrow> path rd" where
  "getPackageJsonFilePathForModule sv moduleName dir f =
     (case require_resolve sv (moduleName @ ''/package.json'') dir f of
        Some pathToJsonFile \<Rightarrow> Inr pathToJsonFile
      | None \<Rightarrow> Inl (Rejected (''Cannot find module '' @ moduleName @ ''/package.json'')))"

section \<open>The incremental native-build cache\<close>

definition getPluginNativeHashes :: "services \<Rightarrow> path \<Rightarrow> filesystem \<Rightarrow> string dict" where
  "getPluginNativeHashes sv pluginPlatformsDir f =
     (if f pluginPlatformsDir \<noteq> None
      then generateHashes sv (enumerateFilesInDirectorySync sv pluginPlatformsDir f) f
      else [])"

definition getAllPluginsNativeHashes :: "path \<Rightarrow> (string dict dict) rd" where
  "getAllPluginsNativeHashes pathToPluginsBuildFile f =
     (if f pathToPluginsBuildFile \<noteq> None then readJson_hashes pathToPluginsBuildFile f else Inr [])"

definition setPluginNativeHashes ::
  "path \<Rightarrow> plugin_data \<Rightarrow> string dict \<Rightarrow> string dict dict \<Rightarrow> unit io" where
  "setPluginNativeHashes pathToPluginsBuildFile pluginData currentPluginNativeHashes allPluginsNativeHashes =
     writeJson pathToPluginsBuildFile
       (PluginsBuildData
          (js_set (pd_name pluginData) currentPluginNativeHashes allPluginsNativeHashes))"

text \<open>The record as rebound, and the two paths computed, at the head of \<open>preparePluginNativeCode\<close>.\<close>

definition withLowerCasePlatformsFolder :: "plugin_data \<Rightarrow> plugin_data" where
  "withLowerCasePlatformsFolder pluginData =
     pluginData\<lparr>pd_pluginPlatformsFolderPath :=
       (\<lambda>p. path_join [pd_fullPath pluginData, ''platforms'', toLowerCase p])\<rparr>"

definition pluginPlatformsFolder :: "plugin_data \<Rightarrow> string \<Rightarrow> path" where
  "pluginPlatformsFolder pluginData platform =
     pd_pluginPlatformsFolderPath (withLowerCasePlatformsFolder pluginData) platform"

definition pathToPluginsBuildFile :: "services \<Rightarrow> string \<Rightarrow> project_data \<Rightarrow> path" where
  "pathToPluginsBuildFile sv platform projectData =
     path_join [projectRoot (getPlatformData sv platform projectData), PLUGINS_BUILD_DATA_FILENAME sv]"

definition preparePluginNativeCode ::
  "services \<Rightarrow> plugin_data \<Rightarrow> string \<Rightarrow> project_data \<Rightarrow> unit io" where
  "preparePluginNativeCode sv pluginData0 platform projectData w =
     (let platformData = getPlatformData sv platform projectData;
          pluginData = withLowerCasePlatformsFolder pluginData0;
          folder = pluginPlatformsFolder pluginData0 platform
      in if fs w folder \<noteq> None then
           (let buildFile = pathToPluginsBuildFile sv platform projectData
            in io_bind (io_lift (getAllPluginsNativeHashes buildFile)) (\<lambda>allPluginsNativeHashes.
                 let oldPluginNativeHashes = js_get allPluginsNativeHashes (pd_name pluginData);
                     currentPluginNativeHashes = getPluginNativeHashes sv folder (fs w)
                 in if (case oldPluginNativeHashes of
                          Undefined \<Rightarrow> True
                        | Own old \<Rightarrow> hasChangesInShasums sv old currentPluginNativeHashes
                        | Inherited member \<Rightarrow>
                            hasChangesInShasums_inherited sv member currentPluginNativeHashes)
                    then io_bind
                           (io_call (PrepareNative platform (pd_name pluginData))
                              (hook_preparePluginNativeCode platformData pluginData projectData))
                           (\<lambda>_. setPluginNativeHashes buildFile pluginData
                                   currentPluginNativeHashes allPluginsNativeHashes)
                    else io_return ()) w)
         else (Inr (), w))"

text \<open>
  Modelled from the spec: \<open>$filesHashService.hasChangesInShasums\<close>, a function of this
  repository that is not among the sources. The spec (4.4, step 4) has integration
  triggered when the new digest-set "differs from the prior one in any added, removed,
  or changed file": some path of either set is bound differently in the two.
\<close>

definition hasChangesInShasums_spec :: "string dict \<Rightarrow> string dict \<Rightarrow> bool" where
  "hasChangesInShasums_spec oldHashes newHashes =
     list_ex (\<lambda>k. map_of oldHashes k \<noteq> map_of newHashes k) (map fst oldHashes @ map fst newHashes)"

text \<open>
  Modelled from the spec: the answer of \<open>$filesHashService.hasChangesInShasums\<close>, which is
  not among the sources, when the old digest-set handed to it is an inherited member.
  Such a member binds no file path to a digest, so by the spec (4.4, step 4) a change is
  an added file: the new digest-set is compared with the empty one.
\<close>

definition hasChangesInShasums_inherited_spec :: "string \<Rightarrow> string dict \<Rightarrow> bool" where
  "hasChangesInShasums_inherited_spec member newHashes = hasChangesInShasums_spec [] newHashes"

section \<open>The manifest mutator\<close>

text \<open>\<open>content[section] && content[section][key]\<close> as a condition.\<close>

definition truthy_entry :: "string dict option \<Rightarrow> string \<Rightarrow> bool" where
  "truthy_entry collection key =
     (case collection of
        None \<Rightarrow> False
      | Some d \<Rightarrow>
          (case js_get d key of Undefined \<Rightarrow> False | Own v \<Rightarrow> v \<noteq> [] | Inherited member \<Rightarrow> True))"

definition removeDependencyFromPackageJsonContent ::
  "string \<Rightarrow> package_json \<Rightarrow> bool \<times> package_json" where
  "removeDependencyFromPackageJsonContent dependency c0 =
     (let (m1, c1) =
            (if truthy_entry (pj_devDependencies c0) dependency
             then (True, c0\<lparr>pj_devDependencies :=
                               map_option (AList.delete dependency) (pj_devDependencies c0)\<rparr>)
             else (False, c0));
          (m2, c2) =
            (if truthy_entry (pj_dependencies c1) dependency
             then (True, c1\<lparr>pj_dependencies :=
                               map_option (AList.delete dependency) (pj_dependencies c1)\<rparr>)
             else (m1, c1))
      in (m2, c2))"

definition collection :: "bool \<Rightarrow> package_json \<Rightarrow> string dict option" where
  "collection isDev c = (if isDev then pj_devDependencies c else pj_dependencies c)"

definition set_collection :: "bool \<Rightarrow> string dict \<Rightarrow> package_json \<Rightarrow> package_json" where
  "set_collection isDev d c =
     (if isDev then c\<lparr>pj_devDependencies := Some d\<rparr> else c\<lparr>pj_dependencies := Some d\<rparr>)"

definition addToPackageJson :: "string \<Rightarrow> string \<Rightarrow> bool \<Rightarrow> path \<Rightarrow> unit io" where
  "addToPackageJson plugin version isDev dir =
     (let packageJsonPath = getPackageJsonFilePath dir
      in io_bind (io_lift (readJson_package packageJsonPath)) (\<lambda>c0.
           let c1 = (if truthy_entry (collection (\<not> isDev) c0) plugin
                     then snd (removeDependencyFromPackageJsonContent plugin c0)
                     else c0);
               c2 = set_collection isDev
                      (js_set plugin version
                         (case collection isDev c1 of None \<Rightarrow> [] | Some d \<Rightarrow> d)) c1
           in writeJson packageJsonPath (PackageJsonFile c2)))"

definition removeFromPackageJson :: "string \<Rightarrow> path \<Rightarrow> unit io" where
  "removeFromPackageJson plugin dir =
     (let packageJsonPath = getPackageJsonFilePath dir
      in io_bind (io_lift (readJson_package packageJsonPath)) (\<lambda>packageJsonContent.
           let result = removeDependencyFromPackageJsonContent plugin packageJsonContent
           in if fst result then writeJson packageJsonPath (PackageJsonFile (snd result))
              else io_return ()))"

section \<open>The plugin classifier\<close>

definition getNodeModuleData :: "services \<Rightarrow> string \<Rightarrow> path \<Rightarrow> node_module_data rd" where
  "getNodeModuleData sv module0 dir f =
     rd_bind
       (if f module0 = None \<or> path_basename module0 \<noteq> ''package.json''
        then getPackageJsonFilePathForModule sv module0 dir
        else rd_return module0)
       (\<lambda>module1. rd_bind (readJson_package module1) (\<lambda>data.
          rd_return \<lparr>nm_name = pj_name data, nm_version = pj_version data,
                     nm_fullPath = path_dirname module1,
                     nm_isPlugin = (pj_nativescript data \<noteq> None),
                     nm_moduleInfo = pj_nativescript data\<rparr>)) f"

definition convertToPluginData :: "services \<Rightarrow> cache_data \<Rightarrow> path \<Rightarrow> plugin_data rd" where
  "convertToPluginData sv cacheData dir =
     rd_bind
       (case cd_directory cacheData of
          Some d \<Rightarrow> if d \<noteq> [] then rd_return d
                    else rd_bind (getPackageJsonFilePathForModule sv (cd_name cacheData) dir)
                           (\<lambda>p. rd_return (path_dirname p))
        | None \<Rightarrow> rd_bind (getPackageJsonFilePathForModule sv (cd_name cacheData) dir)
                    (\<lambda>p. rd_return (path_dirname p)))
       (\<lambda>fullPath.
          let isPlugin = (cd_nativescript cacheData \<noteq> None \<or> cd_moduleInfo cacheData \<noteq> None);
              data = (case cd_nativescript cacheData of
                        Some d \<Rightarrow> Some d
                      | None \<Rightarrow> cd_moduleInfo cacheData)
          in rd_return
               \<lparr>pd_name = cd_name cacheData, pd_version = cd_version cacheData,
                pd_fullPath = fullPath, pd_isPlugin = isPlugin,
                pd_pluginPlatformsFolderPath = (\<lambda>platform. path_join [fullPath, ''platforms'', platform]),
                pd_platformsDataService =
                  (if isPlugin then (case data of Some d \<Rightarrow> ns_platforms d | None \<Rightarrow> None) else None),
                pd_pluginVariables =
                  (if isPlugin then (case data of Some d \<Rightarrow> ns_variables d | None \<Rightarrow> None) else None)\<rparr>)"

text \<open>The two shapes \<open>convertToPluginData\<close> is called with in \<open>add\<close> and \<open>remove\<close>.\<close>

definition cacheData_of_package :: "package_json \<Rightarrow> cache_data" where
  "cacheData_of_package c =
     \<lparr>cd_name = pj_name c, cd_version = pj_version c, cd_directory = None,
      cd_nativescript = pj_nativescript c, cd_moduleInfo = None\<rparr>"

definition cacheData_of_module :: "node_module_data \<Rightarrow> cache_data" where
  "cacheData_of_module m =
     \<lparr>cd_name = nm_name m, cd_version = nm_version m, cd_directory = None,
      cd_nativescript = None, cd_moduleInfo = nm_moduleInfo m\<rparr>"

section \<open>The version compatibility validator\<close>

definition getInstalledFrameworkVersion :: "services \<Rightarrow> string \<Rightarrow> project_data \<Rightarrow> string rd" where
  "getInstalledFrameworkVersion sv platform projectData f =
     (let platformData = getPlatformData sv platform projectData
      in case getNSValue sv (projectDir projectData) (frameworkPackageName platformData) f of
           Some frameworkData \<Rightarrow> Inr (fd_version frameworkData)
         | None \<Rightarrow> Inl (Rejected ''TypeError: cannot read property version of undefined''))"

text \<open>
  The requirement read for the platform is tested for truthiness and then handed to
  \<open>semver.gt\<close>, which raises on an argument that is not a string (an inherited member).
\<close>

definition isPluginDataValidForPlatform ::
  "services \<Rightarrow> plugin_data \<Rightarrow> string \<Rightarrow> project_data \<Rightarrow> bool io" where
  "isPluginDataValidForPlatform sv pluginData platform projectData =
     io_bind (io_lift (getInstalledFrameworkVersion sv platform projectData)) (\<lambda>installedFrameworkVersion.
       case pd_platformsDataService pluginData of
         None \<Rightarrow> io_return True
       | Some pluginPlatformsData \<Rightarrow>
           (case js_get pluginPlatformsData platform of
              Undefined \<Rightarrow>
                io_bind (io_emit (LogWarn (pd_name pluginData @ '' is not supported for '' @ platform @ ''.'')))
                  (\<lambda>_. io_return False)
            | Inherited member \<Rightarrow>
                io_throw (Rejected ''TypeError: Invalid Version'')
            | Own versionRequiredByPlugin \<Rightarrow>
                if versionRequiredByPlugin = [] then
                  io_bind (io_emit (LogWarn (pd_name pluginData @ '' is not supported for '' @ platform @ ''.'')))
                    (\<lambda>_. io_return False)
                else
                  (case semver_gt sv versionRequiredByPlugin installedFrameworkVersion of
                     Inl e \<Rightarrow> io_throw e
                   | Inr True \<Rightarrow>
                       io_bind (io_emit (LogWarn
                                  (pd_name pluginData @ '' requires at least version '' @ versionRequiredByPlugin
                                   @ '' of platform '' @ platform @ ''. Currently installed version is ''
                                   @ installedFrameworkVersion @ ''.'')))
                         (\<lambda>_. io_return False)
                   | Inr False \<Rightarrow> io_return True)))"

section \<open>The installer and the remover\<close>

text \<open>
  The loop of \<open>executeForAllInstalledPlatforms\<close>. A variable that an action closes over
  and assigns (\<open>showMessage\<close> in \<open>remove\<close>) is the state \<open>s\<close> the actions pass on.
\<close>

fun forEachPlatform ::
  "services \<Rightarrow> project_data \<Rightarrow> (path \<Rightarrow> string \<Rightarrow> platform_data \<Rightarrow> 's \<Rightarrow> 's io)
     \<Rightarrow> string list \<Rightarrow> 's \<Rightarrow> 's io" where
  "forEachPlatform sv projectData action [] s w = (Inr s, w)"
| "forEachPlatform sv projectData action (platform # rest) s w =
     (if fs w (path_join [platformsDir projectData, toLowerCase platform]) \<noteq> None then
        (let platformData = getPlatformData sv (toLowerCase platform) projectData;
             pluginDestinationPath =
               path_join [appDestinationDirectoryPath platformData, APP_FOLDER_NAME sv, ''tns_modules'']
         in case action pluginDestinationPath (toLowerCase platform) platformData s w of
              (Inl e, w') \<Rightarrow> (Inl e, w')
            | (Inr s', w') \<Rightarrow> forEachPlatform sv projectData action rest s' w')
      else forEachPlatform sv projectData action rest s w)"

definition executeForAllInstalledPlatforms ::
  "services \<Rightarrow> (path \<Rightarrow> string \<Rightarrow> platform_data \<Rightarrow> 's \<Rightarrow> 's io) \<Rightarrow> project_data \<Rightarrow> 's \<Rightarrow> 's io" where
  "executeForAllInstalledPlatforms sv action projectData =
     forEachPlatform sv projectData action (map toLowerCase (platformNames sv))"

definition npmInstallOptions :: "services \<Rightarrow> npm_options" where
  "npmInstallOptions sv =
     \<lparr>o_disableNpmInstall = opt_disableNpmInstall (cli sv), o_frameworkPath = opt_frameworkPath (cli sv),
      o_ignoreScripts = opt_ignoreScripts (cli sv), o_path = opt_path (cli sv), o_save = True\<rparr>"

definition parseNpmCommandResult :: "string \<Rightarrow> string" where
  "parseNpmCommandResult npmCommandResult = takeWhile (\<lambda>c. c \<noteq> CHR ''@'') npmCommandResult"

definition executeNpmCommand :: "services \<Rightarrow> string \<Rightarrow> string \<Rightarrow> project_data \<Rightarrow> string io" where
  "executeNpmCommand sv npmCommandName npmCommandArguments projectData =
     io_bind
       (if npmCommandName = ''install'' then
          io_bind (io_external (PmInstall npmCommandArguments (projectDir projectData))
                     (pm_install sv npmCommandArguments (projectDir projectData) (npmInstallOptions sv)))
            (\<lambda>_. io_return ())
        else if npmCommandName = ''uninstall'' then
          io_external (PmUninstall npmCommandArguments (projectDir projectData))
            (pm_uninstall sv npmCommandArguments (projectDir projectData))
        else io_return ())
       (\<lambda>_. io_return (parseNpmCommandResult npmCommandArguments))"

definition installedDependencies :: "services \<Rightarrow> project_data \<Rightarrow> filesystem \<Rightarrow> string list" where
  "installedDependencies sv projectData f =
     (let nodeModules = getNodeModulesPath (projectDir projectData);
          top = (if f nodeModules \<noteq> None then readDirectory sv nodeModules f else [])
      in top @ concat (map (\<lambda>scopedDependencyDir.
                              map (\<lambda>dependencyName. scopedDependencyDir @ ''/'' @ dependencyName)
                                (readDirectory sv (path_join [nodeModules, scopedDependencyDir]) f))
                         (filter (\<lambda>dependencyName. take 1 dependencyName = ''@'') top)))"

definition dict_keys :: "'v dict option \<Rightarrow> string list" where
  "dict_keys d = (case d of None \<Rightarrow> [] | Some kvs \<Rightarrow> map fst kvs)"

definition ensureAllDependenciesAreInstalled :: "services \<Rightarrow> project_data \<Rightarrow> unit io" where
  "ensureAllDependenciesAreInstalled sv projectData w =
     (let installed = installedDependencies sv projectData (fs w)
      in io_bind (io_lift (readJson_package (getPackageJsonFilePath (projectDir projectData))))
           (\<lambda>packageJsonContent.
              let allDependencies = dict_keys (pj_dependencies packageJsonContent)
                                    @ dict_keys (pj_devDependencies packageJsonContent);
                  notInstalledDependencies = filter (\<lambda>d. d \<notin> set installed) allDependencies
              in if opt_force (cli sv) \<or> notInstalledDependencies \<noteq> [] then
                   io_bind (io_emit (LogTrace notInstalledDependencies)) (\<lambda>_.
                   io_bind (io_external (PmInstall (projectDir projectData) (projectDir projectData))
                              (pm_install sv (projectDir projectData) (projectDir projectData)
                                 ((npmInstallOptions sv)\<lparr>o_save := False\<rparr>)))
                     (\<lambda>_. io_return ()))
                 else io_return ()) w)"

definition ensure :: "services \<Rightarrow> project_data \<Rightarrow> unit io" where
  "ensure sv projectData =
     io_bind (ensureAllDependenciesAreInstalled sv projectData)
       (\<lambda>_. ensureDirectoryExists (getNodeModulesPath (projectDir projectData)))"

text \<open>The specifier that \<open>add\<close> hands to the package manager and names in its messages.\<close>

definition resolvedSpecifier :: "services \<Rightarrow> string \<Rightarrow> filesystem \<Rightarrow> string" where
  "resolvedSpecifier sv plugin f =
     (let possiblePackageName = path_resolve sv plugin
      in if string_includes ''.tgz'' possiblePackageName \<and> f possiblePackageName \<noteq> None
         then possiblePackageName else plugin)"

definition add :: "services \<Rightarrow> string \<Rightarrow> project_data \<Rightarrow> unit io" where
  "add sv plugin0 projectData =
     io_bind (ensure sv projectData) (\<lambda>_ w1.
       (let plugin = resolvedSpecifier sv plugin0 (fs w1)
        in io_bind (io_external (PmInstall plugin (projectDir projectData))
                      (pm_install sv plugin (projectDir projectData) (npmInstallOptions sv)))
             (\<lambda>name.
           io_bind (io_lift (getPackageJsonFilePathForModule sv name (projectDir projectData)))
             (\<lambda>pathToRealNpmPackageJson.
           io_bind (io_lift (readJson_package pathToRealNpmPackageJson)) (\<lambda>realNpmPackageJson.
             if pj_nativescript realNpmPackageJson \<noteq> None then
               io_bind (io_lift (convertToPluginData sv (cacheData_of_package realNpmPackageJson)
                                   (projectDir projectData)))
                 (\<lambda>pluginData.
               io_bind (executeForAllInstalledPlatforms sv
                          (\<lambda>pluginDestinationPath platform platformData (u :: unit).
                             io_bind (isPluginDataValidForPlatform sv pluginData platform projectData)
                               (\<lambda>_. io_return ()))
                          projectData ())
                 (\<lambda>_. io_emit (LogInfo (''Successfully installed plugin ''
                                          @ pj_name realNpmPackageJson @ ''.''))))
             else
               io_bind (io_external (PmUninstall (pj_name realNpmPackageJson) (projectDir projectData))
                          (pm_uninstall sv (pj_name realNpmPackageJson) (projectDir projectData)))
                 (\<lambda>_. io_throw (ErrorsFail
                    (plugin @ '' is not a valid NativeScript plugin. Verify that the plugin package.json file contains a nativescript key and try again.''))))))) w1)"

definition removePluginNativeCodeAction ::
  "services \<Rightarrow> string \<Rightarrow> project_data \<Rightarrow> path \<Rightarrow> string \<Rightarrow> platform_data \<Rightarrow> unit \<Rightarrow> unit io" where
  "removePluginNativeCodeAction sv pluginName projectData modulesDestinationPath platform platformData u =
     io_bind (io_lift (rd_bind (getNodeModuleData sv pluginName (projectDir projectData))
                         (\<lambda>m. convertToPluginData sv (cacheData_of_module m) (projectDir projectData))))
       (\<lambda>pluginData.
          io_call (RemoveNative platform (pd_name pluginData))
            (hook_removePluginNativeCode platformData pluginData projectData))"

definition removeDirectoryAction ::
  "string \<Rightarrow> path \<Rightarrow> string \<Rightarrow> platform_data \<Rightarrow> bool \<Rightarrow> bool io" where
  "removeDirectoryAction pluginName modulesDestinationPath platform platformData showMessage =
     io_bind (shelljs_rm_rf (path_join [modulesDestinationPath, pluginName])) (\<lambda>_.
     io_bind (io_emit (LogInfo (''Successfully removed plugin '' @ pluginName @ '' for '' @ platform @ ''.'')))
       (\<lambda>_. io_return False))"

definition remove :: "services \<Rightarrow> string \<Rightarrow> project_data \<Rightarrow> unit io" where
  "remove sv pluginName projectData =
     io_bind (executeForAllInstalledPlatforms sv
                (removePluginNativeCodeAction sv pluginName projectData) projectData ())
       (\<lambda>_.
     io_bind (executeNpmCommand sv ''uninstall'' pluginName projectData) (\<lambda>_.
     io_bind (executeForAllInstalledPlatforms sv (removeDirectoryAction pluginName) projectData True)
       (\<lambda>showMessage.
          if showMessage then io_emit (LogInfo (''Successfully removed plugin '' @ pluginName))
          else io_return ())))"

section \<open>Observations on the world\<close>

text \<open>The digest-set that the ledger file at \<open>p\<close> holds for a plugin, if the file holds a ledger.\<close>

definition ledgerEntry :: "filesystem \<Rightarrow> path \<Rightarrow> string \<Rightarrow> string dict option" where
  "ledgerEntry f p plugin = (case f p of Some (PluginsBuildData l) \<Rightarrow> map_of l plugin | _ \<Rightarrow> None)"

text \<open>The platforms that \<open>executeForAllInstalledPlatforms\<close> finds installed in a file system.\<close>

definition installedPlatforms :: "services \<Rightarrow> project_data \<Rightarrow> filesystem \<Rightarrow> string list" where
  "installedPlatforms sv projectData f =
     filter (\<lambda>platform. f (path_join [platformsDir projectData, toLowerCase platform]) \<noteq> None)
       (map toLowerCase (platformNames sv))"

text \<open>The \<open>pluginDestinationPath\<close> that the loop hands to its action for a platform.\<close>

definition modulesDestinationPath :: "services \<Rightarrow> project_data \<Rightarrow> string \<Rightarrow> path" where
  "modulesDestinationPath sv projectData platform =
     path_join [appDestinationDirectoryPath (getPlatformData sv platform projectData),
                APP_FOLDER_NAME sv, ''tns_modules'']"

text \<open>The plugin record that the first action of \<open>remove\<close> builds for a plugin name.\<close>

definition pluginDataOfModule :: "services \<Rightarrow> string \<Rightarrow> project_data \<Rightarrow> plugin_data rd" where
  "pluginDataOfModule sv pluginName projectData =
     rd_bind (getNodeModuleData sv pluginName (projectDir projectData))
       (\<lambda>m. convertToPluginData sv (cacheData_of_module m) (projectDir projectData))"

text \<open>Whether the project's manifest has the name as a key of one of its two sections.\<close>

definition manifestDeclares :: "filesystem \<Rightarrow> path \<Rightarrow> string \<Rightarrow> bool" where
  "manifestDeclares f dir name =
     (case f (getPackageJsonFilePath dir) of
        Some (PackageJsonFile c) \<Rightarrow>
          name \<in> set (dict_keys (pj_dependencies c)) \<or> name \<in> set (dict_keys (pj_devDependencies c))
      | _ \<Rightarrow> False)"

text \<open>Whether \<open>rm -rf\<close> of the first path takes the second path away.\<close>

definition removes :: "path \<Rightarrow> path \<Rightarrow> bool" where
  "removes p q = (q = p \<or> prefix (p @ ''/'') q)"

section \<open>An example project\<close>

text \<open>
  A project in \<open>/proj\<close> with the platforms android and ios installed and one plugin
  \<open>foo\<close>, which has native assets for android.
\<close>

definition ex_project :: project_data where
  "ex_project = \<lparr>projectDir = ''/proj'', platformsDir = ''/proj/platforms''\<rparr>"

definition hook_ok :: native_hook where
  "hook_ok pluginData projectData f = Inr ()"

definition hook_failing :: native_hook where
  "hook_failing pluginData projectData f = Inl (Rejected ''native project failure'')"

definition ex_platformData ::
  "(string \<Rightarrow> native_hook) \<Rightarrow> (string \<Rightarrow> native_hook) \<Rightarrow> string \<Rightarrow> platform_data" where
  "ex_platformData prepareHook removeHook platform =
     \<lparr>projectRoot = ''/proj/platforms/'' @ platform,
      appDestinationDirectoryPath = ''/proj/platforms/'' @ platform @ ''/assets'',
      frameworkPackageName = ''tns-'' @ platform,
      hook_preparePluginNativeCode = prepareHook platform,
      hook_removePluginNativeCode = removeHook platform\<rparr>"

definition ex_require_resolve :: "string \<Rightarrow> path \<Rightarrow> filesystem \<Rightarrow> path option" where
  "ex_require_resolve request dir f =
     (let p = path_join [dir, ''node_modules'', request] in if f p \<noteq> None then Some p else None)"

text \<open>A package manager that installs one given package and saves it to the manifest.\<close>

definition ex_install ::
  "package_json \<Rightarrow> string \<Rightarrow> path \<Rightarrow> npm_options \<Rightarrow> filesystem \<Rightarrow> (error + string) \<times> filesystem" where
  "ex_install package specifier dir opts f =
     (Inr (pj_name package),
      (case f (getPackageJsonFilePath dir) of
         Some (PackageJsonFile c) \<Rightarrow>
           f(getPackageJsonFilePath dir \<mapsto>
               PackageJsonFile (c\<lparr>pj_dependencies :=
                  Some (AList.update (pj_name package) (pj_version package)
                          (case pj_dependencies c of None \<Rightarrow> [] | Some d \<Rightarrow> d))\<rparr>),
             path_join [dir, ''node_modules'', pj_name package, ''package.json''] \<mapsto> PackageJsonFile package)
       | _ \<Rightarrow> f(path_join [dir, ''node_modules'', pj_name package, ''package.json''] \<mapsto> PackageJsonFile package)))"

definition ex_uninstall :: "string \<Rightarrow> path \<Rightarrow> filesystem \<Rightarrow> (error + unit) \<times> filesystem" where
  "ex_uninstall name dir f =
     (Inr (),
      (case f (getPackageJsonFilePath dir) of
         Some (PackageJsonFile c) \<Rightarrow>
           f(getPackageJsonFilePath dir \<mapsto>
               PackageJsonFile (snd (removeDependencyFromPackageJsonContent name c)),
             path_join [dir, ''node_modules'', name, ''package.json''] := None)
       | _ \<Rightarrow> f(path_join [dir, ''node_modules'', name, ''package.json''] := None)))"

text \<open>
  A comparison of versions of the form \<open>major.minor.patch\<close>, enough for \<open>6.0.0\<close> against
  \<open>5.2.0\<close>; it raises on any other string, as \<open>semver.gt\<close> does on \<open>6.0\<close>.
\<close>

fun version_numbers :: "nat \<Rightarrow> string \<Rightarrow> nat list" where
  "version_numbers n [] = [n]"
| "version_numbers n (c # cs) =
     (if c = CHR ''.'' then n # version_numbers 0 cs
      else version_numbers (10 * n + (of_char c - 48)) cs)"

fun version_groups :: "string \<Rightarrow> string \<Rightarrow> string list" where
  "version_groups g [] = [g]"
| "version_groups g (c # cs) =
     (if c = CHR ''.'' then g # version_groups [] cs else version_groups (g @ [c]) cs)"

definition valid_version :: "string \<Rightarrow> bool" where
  "valid_version v =
     (length (version_groups [] v) = 3
      \<and> list_all (\<lambda>g. g \<noteq> [] \<and> list_all (\<lambda>c. c \<in> set ''0123456789'') g) (version_groups [] v))"

fun numbers_gt :: "nat list \<Rightarrow> nat list \<Rightarrow> bool" where
  "numbers_gt (a # as) (b # bs) = (a > b \<or> (a = b \<and> numbers_gt as bs))"
| "numbers_gt _ _ = False"

definition ex_semver_gt :: "string \<Rightarrow> string \<Rightarrow> error + bool" where
  "ex_semver_gt a b =
     (if valid_version a \<and> valid_version b
      then Inr (numbers_gt (version_numbers 0 a) (version_numbers 0 b))
      else Inl (Rejected ''TypeError: Invalid Version''))"

definition ex_services ::
  "(string \<Rightarrow> native_hook) \<Rightarrow> (string \<Rightarrow> native_hook) \<Rightarrow> string dict \<Rightarrow> package_json \<Rightarrow> services" where
  "ex_services prepareHook removeHook digests installable =
     \<lparr>platformNames = [''Android'', ''iOS''],
      getPlatformData = (\<lambda>platform projectData. ex_platformData prepareHook removeHook platform),
      getNSValue = (\<lambda>dir key f. Some \<lparr>fd_version = ''5.2.0''\<rparr>),
      enumerateFilesInDirectorySync = (\<lambda>dir f. map fst digests),
      generateHashes = (\<lambda>files f. digests),
      hasChangesInShasums = hasChangesInShasums_spec,
      hasChangesInShasums_inherited = hasChangesInShasums_inherited_spec,
      readDirectory = (\<lambda>dir f. if dir = ''/proj/node_modules'' then [''foo''] else []),
      pm_install = ex_install installable,
      pm_uninstall = ex_uninstall,
      semver_gt = ex_semver_gt,
      path_resolve = (\<lambda>s. ''/cwd/'' @ s),
      require_resolve = ex_require_resolve,
      cli = \<lparr>opt_force = False, opt_disableNpmInstall = False, opt_frameworkPath = None,
             opt_ignoreScripts = False, opt_path = None\<rparr>,
      APP_FOLDER_NAME = ''app'',
      PLUGINS_BUILD_DATA_FILENAME = ''plugins-build-data.json''\<rparr>"

definition foo_package :: package_json where
  "foo_package =
     \<lparr>pj_name = ''foo'', pj_version = ''1.0.0'', pj_dependencies = None, pj_devDependencies = None,
      pj_nativescript = Some \<lparr>ns_platforms = Some [(''ios'', ''6.0.0''), (''android'', ''5.0.0'')],
                              ns_variables = None\<rparr>\<rparr>"

definition plain_package :: package_json where
  "plain_package =
     \<lparr>pj_name = ''plain'', pj_version = ''2.0.0'', pj_dependencies = None, pj_devDependencies = None,
      pj_nativescript = None\<rparr>"

definition ex_manifest :: package_json where
  "ex_manifest =
     \<lparr>pj_name = ''proj'', pj_version = ''0.1.0'', pj_dependencies = Some [(''foo'', ''1.0.0'')],
      pj_devDependencies = None, pj_nativescript = None\<rparr>"

definition ex_fs :: filesystem where
  "ex_fs =
     [''/proj/package.json'' \<mapsto> PackageJsonFile ex_manifest,
      ''/proj/node_modules'' \<mapsto> Directory,
      ''/proj/node_modules/foo/package.json'' \<mapsto> PackageJsonFile foo_package,
      ''/proj/node_modules/foo/platforms/android'' \<mapsto> Directory,
      ''/proj/platforms/android'' \<mapsto> Directory,
      ''/proj/platforms/ios'' \<mapsto> Directory]"

definition foo_plugin :: plugin_data where
  "foo_plugin =
     \<lparr>pd_name = ''foo'', pd_version = ''1.0.0'', pd_fullPath = ''/proj/node_modules/foo'',
      pd_isPlugin = True,
      pd_pluginPlatformsFolderPath = (\<lambda>platform. path_join [''/proj/node_modules/foo'', ''platforms'', platform]),
      pd_platformsDataService = Some [(''ios'', ''6.0.0''), (''android'', ''5.0.0'')],
      pd_pluginVariables = None\<rparr>"

definition android_ledger :: path where
  "android_ledger = ''/proj/platforms/android/plugins-build-data.json''"

definition ex_ledger :: "string dict dict" where
  "ex_ledger = [(''foo'', [(''a.jar'', ''d1'')]), (''bar'', [(''b.jar'', ''d9'')])]"

definition ex_world :: "filesystem \<Rightarrow> world" where
  "ex_world f = \<lparr>fs = f, events = []\<rparr>"

text \<open>The services of the example with hooks that succeed and \<open>digests\<close> as the current digest-set.\<close>

definition ex_sv :: "string dict \<Rightarrow> services" where
  "ex_sv digests = ex_services (\<lambda>p. hook_ok) (\<lambda>p. hook_ok) digests plain_package"

definition bare_manifest :: package_json where
  "bare_manifest =
     \<lparr>pj_name = ''proj'', pj_version = ''0.1.0'', pj_dependencies = None,
      pj_devDependencies = None, pj_nativescript = None\<rparr>"

text \<open>The services of the example with a removal hook that raises on one platform.\<close>

definition ex_sv_failing_remove :: "string \<Rightarrow> services" where
  "ex_sv_failing_remove platform =
     ex_services (\<lambda>p. hook_ok) (\<lambda>p. if p = platform then hook_failing else hook_ok) [] plain_package"

text \<open>
  A plugin named \<open>constructor\<close> whose native folder for android exists and holds no file.
\<close>

definition constructor_plugin :: plugin_data where
  "constructor_plugin =
     \<lparr>pd_name = ''constructor'', pd_version = ''1.0.0'', pd_fullPath = ''/proj/node_modules/constructor'',
      pd_isPlugin = True,
      pd_pluginPlatformsFolderPath =
        (\<lambda>platform. path_join [''/proj/node_modules/constructor'', ''platforms'', platform]),
      pd_platformsDataService = None,
      pd_pluginVariables = None\<rparr>"

definition constructor_fs :: filesystem where
  "constructor_fs = ex_fs(''/proj/node_modules/constructor/platforms/android'' \<mapsto> Directory)"

text \<open>
  A plugin named \<open>__proto__\<close> with the same empty native folder, and the services of the
  example with a hash service that gives a fixed answer on an inherited member.
\<close>

definition proto_plugin :: plugin_data where
  "proto_plugin = constructor_plugin\<lparr>pd_name := ''__proto__''\<rparr>"

definition ex_sv_inherited_answer :: "bool \<Rightarrow> services" where
  "ex_sv_inherited_answer answer = (ex_sv [])\<lparr>hasChangesInShasums_inherited := (\<lambda>member cur. answer)\<rparr>"

section \<open>Unfolding rules and auxiliary facts\<close>

lemmas io_defs = io_return_def io_throw_def io_bind_def io_lift_def io_emit_def io_call_def
  io_external_def rd_return_def rd_bind_def

lemmas ex_defs = ex_project_def hook_ok_def hook_failing_def ex_platformData_def
  ex_require_resolve_def ex_install_def ex_uninstall_def ex_semver_gt_def valid_version_def
  constructor_plugin_def constructor_fs_def proto_plugin_def ex_sv_inherited_answer_def ex_services_def
  foo_package_def plain_package_def ex_manifest_def ex_fs_def foo_plugin_def android_ledger_def
  ex_ledger_def ex_world_def ex_sv_def ex_sv_failing_remove_def bare_manifest_def

lemmas fs_defs = readJson_package_def readJson_hashes_def writeJson_def ensureDirectoryExists_def
  shelljs_rm_rf_def getNodeModulesPath_def getPackageJsonFilePath_def
  getPackageJsonFilePathForModule_def path_basename_def path_dirname_def toLowerCase_def
  toLowerCase_char_def dict_keys_def js_get_def js_set_def object_prototype_members_def

lemmas cache_defs = preparePluginNativeCode_def getAllPluginsNativeHashes_def
  getPluginNativeHashes_def setPluginNativeHashes_def withLowerCasePlatformsFolder_def
  pluginPlatformsFolder_def pathToPluginsBuildFile_def

lemma hasChangesInShasums_spec_iff:
  "hasChangesInShasums_spec a b \<longleftrightarrow> map_of a \<noteq> map_of b"
proof
  assume "hasChangesInShasums_spec a b"
  then show "map_of a \<noteq> map_of b"
    by (auto simp: hasChangesInShasums_spec_def list_ex_iff)
next
  assume "map_of a \<noteq> map_of b"
  then obtain k where k: "map_of a k \<noteq> map_of b k" by (auto simp: fun_eq_iff)
  then have "k \<in> fst ` set a \<or> k \<in> fst ` set b"
    by (metis map_of_eq_None_iff)
  with k show "hasChangesInShasums_spec a b"
    by (auto simp: hasChangesInShasums_spec_def list_ex_iff)
qed

lemma pd_name_withLowerCase [simp]:
  "pd_name (withLowerCasePlatformsFolder pluginData) = pd_name pluginData"
  by (simp add: withLowerCasePlatformsFolder_def)

lemmas manifest_defs = addToPackageJson_def removeFromPackageJson_def
  removeDependencyFromPackageJsonContent_def truthy_entry_def collection_def set_collection_def

lemmas classifier_defs = getNodeModuleData_def convertToPluginData_def cacheData_of_package_def
  cacheData_of_module_def pluginDataOfModule_def

lemmas loop_defs = remove_def add_def executeForAllInstalledPlatforms_def executeNpmCommand_def
  removePluginNativeCodeAction_def removeDirectoryAction_def parseNpmCommandResult_def
  npmInstallOptions_def ensure_def ensureAllDependenciesAreInstalled_def installedDependencies_def
  resolvedSpecifier_def

lemmas observer_defs = ledgerEntry_def installedPlatforms_def modulesDestinationPath_def
  manifestDeclares_def removes_def

lemmas validator_defs = isPluginDataValidForPlatform_def getInstalledFrameworkVersion_def

lemma js_get_own: "map_of d key = Some v \<Longrightarrow> js_get d key = Own v"
  by (simp add: js_get_def)

lemma js_get_undefined:
  "map_of d key = None \<Longrightarrow> key \<notin> set object_prototype_members \<Longrightarrow> js_get d key = Undefined"
  by (simp add: js_get_def)

lemma js_set_regular:
  "key \<notin> set object_prototype_members \<Longrightarrow> js_set key v d = AList.update key v d"
  by (auto simp: js_set_def object_prototype_members_def)

lemma map_of_js_set_other: "q \<noteq> key \<Longrightarrow> map_of (js_set key v d) q = map_of d q"
  by (simp add: js_set_def update_conv')

lemma truthy_entry_absent:
  "plugin \<notin> set (dict_keys sec) \<Longrightarrow> plugin \<notin> set object_prototype_members
     \<Longrightarrow> \<not> truthy_entry sec plugin"
proof (cases sec)
  case None
  then show ?thesis by (simp add: truthy_entry_def)
next
  case (Some d)
  assume "plugin \<notin> set (dict_keys sec)" and regular: "plugin \<notin> set object_prototype_members"
  with Some have "map_of d plugin = None"
    by (force simp: dict_keys_def map_of_eq_None_iff)
  with Some regular show ?thesis
    by (simp add: truthy_entry_def js_get_undefined)
qed

lemma toLowerCase_idem [simp]: "toLowerCase (toLowerCase s) = toLowerCase s"
  by (induction s) (auto simp: toLowerCase_def toLowerCase_char_def split: char.splits)

lemma installedPlatforms_lower:
  "p \<in> set (installedPlatforms sv projectData f) \<Longrightarrow> toLowerCase p = p"
  by (auto simp: installedPlatforms_def)

section \<open>Properties of the incremental native-build cache\<close>

text \<open>
  C1. The plugin's native folder exists, the platform's ledger holds a digest-set for the
  plugin, and the digests computed in this pass bind the same paths to the same digests.
  Then the pass returns with the world as it found it: no native-integration call is
  made and nothing is written. (The hash service's comparison is the one modelled from
  the spec.)
\<close>

theorem cache_hit_skips_integration:
  assumes folder: "fs w (pluginPlatformsFolder pluginData platform) \<noteq> None"
    and load: "fs w (pathToPluginsBuildFile sv platform projectData) = Some (PluginsBuildData ledger)"
    and old: "map_of ledger (pd_name pluginData) = Some old"
    and same: "map_of (getPluginNativeHashes sv (pluginPlatformsFolder pluginData platform) (fs w)) = map_of old"
    and svc: "hasChangesInShasums sv = hasChangesInShasums_spec"
  shows "preparePluginNativeCode sv pluginData platform projectData w = (Inr (), w)"
proof -
  have nochange: "\<not> hasChangesInShasums sv old
       (getPluginNativeHashes sv (pluginPlatformsFolder pluginData platform) (fs w))"
    using same by (simp add: svc hasChangesInShasums_spec_iff)
  have all: "getAllPluginsNativeHashes (pathToPluginsBuildFile sv platform projectData) (fs w) = Inr ledger"
    using load by (simp add: getAllPluginsNativeHashes_def readJson_hashes_def)
  show ?thesis
    using folder all nochange
    by (simp add: preparePluginNativeCode_def Let_def io_bind_def io_lift_def io_return_def
          js_get_own [OF old])
qed

theorem cache_hit_skips_integration_witness:
  "preparePluginNativeCode (ex_sv [(''a.jar'', ''d1'')]) foo_plugin ''android'' ex_project
     (ex_world (ex_fs(android_ledger \<mapsto> PluginsBuildData ex_ledger)))
   = (Inr (), ex_world (ex_fs(android_ledger \<mapsto> PluginsBuildData ex_ledger)))"
  using cache_hit_skips_integration
    [of "ex_world (ex_fs(android_ledger \<mapsto> PluginsBuildData ex_ledger))" foo_plugin "''android''"
        "ex_sv [(''a.jar'', ''d1'')]" ex_project ex_ledger "[(''a.jar'', ''d1'')]"]
  by (simp add: cache_defs fs_defs ex_defs)

text \<open>
  C2 at a failing input. The plugin is named \<open>constructor\<close>, its native folder for android
  exists and holds no file, and there is no ledger file, so the ledger has no entry for
  the plugin. The pass returns with the world as it found it: the hook is not called and
  no ledger is written. The read \<open>allPluginsNativeHashes[pluginData.name]\<close> finds the
  inherited member, which is truthy, so the pass asks the hash service instead of taking
  the plugin as never integrated. (The hash service's answer is the one modelled from
  the spec.)
\<close>

theorem constructor_plugin_integration_skipped:
  "preparePluginNativeCode (ex_sv []) constructor_plugin ''android'' ex_project (ex_world constructor_fs)
   = (Inr (), ex_world constructor_fs)"
  by (simp add: cache_defs fs_defs ex_defs io_defs hasChangesInShasums_inherited_spec_def
        hasChangesInShasums_spec_def Let_def)

text \<open>
  For a plugin named \<open>__proto__\<close> the outcome does not rest on the hash service. When it
  reports a change, the hook is called and the ledger is written, but the assignment
  \<open>allPluginsNativeHashes[name] = currentPluginNativeHashes\<close> goes to the inherited setter and
  adds no entry: the written ledger is empty. When it reports none, nothing is done.
\<close>

lemma proto_plugin_never_recorded:
  "preparePluginNativeCode (ex_sv_inherited_answer True) proto_plugin ''android'' ex_project
     (ex_world constructor_fs)
   = (Inr (),
      \<lparr>fs = constructor_fs(android_ledger \<mapsto> PluginsBuildData []),
       events = [PrepareNative ''android'' ''__proto__'', WriteJson android_ledger (PluginsBuildData [])]\<rparr>)
   \<and> preparePluginNativeCode (ex_sv_inherited_answer False) proto_plugin ''android'' ex_project
         (ex_world constructor_fs)
       = (Inr (), ex_world constructor_fs)"
  by (simp add: cache_defs fs_defs ex_defs io_defs Let_def)

text \<open>
  For a plugin whose name is not the name of an inherited member, the property holds. The
  native folder exists and the ledger, as loaded, has no entry for the plugin or an entry
  that differs from the digests computed now. Then the hook is called exactly once. If it
  returns, the ledger with the plugin's entry set to the new digest-set is written to the
  ledger file, and that ledger maps the plugin to the new digest-set; if it raises, the
  pass raises the same error and the file system is as before. (The hash service's
  comparison is the one modelled from the spec.)
\<close>

lemma change_triggers_one_integration:
  assumes folder: "fs w (pluginPlatformsFolder pluginData platform) \<noteq> None"
    and regular: "pd_name pluginData \<notin> set object_prototype_members"
    and load: "getAllPluginsNativeHashes (pathToPluginsBuildFile sv platform projectData) (fs w) = Inr ledger"
    and cur: "cur = getPluginNativeHashes sv (pluginPlatformsFolder pluginData platform) (fs w)"
    and changed: "map_of ledger (pd_name pluginData) = None
                  \<or> (\<exists>old. map_of ledger (pd_name pluginData) = Some old \<and> map_of old \<noteq> map_of cur)"
    and svc: "hasChangesInShasums sv = hasChangesInShasums_spec"
  shows "preparePluginNativeCode sv pluginData platform projectData w =
           (case hook_preparePluginNativeCode (getPlatformData sv platform projectData)
                   (withLowerCasePlatformsFolder pluginData) projectData (fs w) of
              Inr u \<Rightarrow>
                (Inr (),
                 \<lparr>fs = (fs w)(pathToPluginsBuildFile sv platform projectData \<mapsto>
                           PluginsBuildData (AList.update (pd_name pluginData) cur ledger)),
                  events = events w @
                    [PrepareNative platform (pd_name pluginData),
                     WriteJson (pathToPluginsBuildFile sv platform projectData)
                       (PluginsBuildData (AList.update (pd_name pluginData) cur ledger))]\<rparr>)
            | Inl e \<Rightarrow>
                (Inl e, w\<lparr>events := events w @ [PrepareNative platform (pd_name pluginData)]\<rparr>))
         \<and> map_of (AList.update (pd_name pluginData) cur ledger) (pd_name pluginData) = Some cur"
proof -
  have trigger: "(case js_get ledger (pd_name pluginData) of
                    Undefined \<Rightarrow> True
                  | Own old \<Rightarrow> hasChangesInShasums sv old cur
                  | Inherited member \<Rightarrow> hasChangesInShasums_inherited sv member cur)"
    using changed regular
    by (auto simp: svc hasChangesInShasums_spec_iff js_get_own js_get_undefined)
  have run: "preparePluginNativeCode sv pluginData platform projectData w =
      io_bind (io_call (PrepareNative platform (pd_name pluginData))
                 (hook_preparePluginNativeCode (getPlatformData sv platform projectData)
                    (withLowerCasePlatformsFolder pluginData) projectData))
        (\<lambda>_. setPluginNativeHashes (pathToPluginsBuildFile sv platform projectData)
                (withLowerCasePlatformsFolder pluginData) cur ledger) w"
    using folder load trigger
    by (simp add: preparePluginNativeCode_def Let_def io_bind_def io_lift_def cur [symmetric])
  show ?thesis
    unfolding run
    by (simp add: io_bind_def io_call_def setPluginNativeHashes_def writeJson_def update_conv'
          js_set_regular [OF regular] split: sum.splits)
qed

text \<open>
  C3, as amended. The plugin's native folder exists and the plugin's name is not the name
  of an inherited member. When the ledger file is missing, the pass takes the ledger to be
  empty: the hook is called once and, if it returns, a ledger holding just the plugin's
  entry is written. When the ledger file exists and its text is not valid JSON, reading
  it raises, and the pass raises that error with the world unchanged: the hook is not
  called and nothing is written.
\<close>

theorem missing_ledger_is_empty_unreadable_ledger_raises:
  assumes folder: "fs w (pluginPlatformsFolder pluginData platform) \<noteq> None"
    and regular: "pd_name pluginData \<notin> set object_prototype_members"
    and cur: "cur = getPluginNativeHashes sv (pluginPlatformsFolder pluginData platform) (fs w)"
  shows "(fs w (pathToPluginsBuildFile sv platform projectData) = None \<longrightarrow>
            preparePluginNativeCode sv pluginData platform projectData w =
              (case hook_preparePluginNativeCode (getPlatformData sv platform projectData)
                      (withLowerCasePlatformsFolder pluginData) projectData (fs w) of
                 Inr u \<Rightarrow>
                   (Inr (),
                    \<lparr>fs = (fs w)(pathToPluginsBuildFile sv platform projectData \<mapsto>
                              PluginsBuildData [(pd_name pluginData, cur)]),
                     events = events w @
                       [PrepareNative platform (pd_name pluginData),
                        WriteJson (pathToPluginsBuildFile sv platform projectData)
                          (PluginsBuildData [(pd_name pluginData, cur)])]\<rparr>)
               | Inl e \<Rightarrow>
                   (Inl e, w\<lparr>events := events w @ [PrepareNative platform (pd_name pluginData)]\<rparr>)))
       \<and> (fs w (pathToPluginsBuildFile sv platform projectData) = Some Unparsable \<longrightarrow>
            preparePluginNativeCode sv pluginData platform projectData w =
              (Inl (Rejected (''cannot read '' @ pathToPluginsBuildFile sv platform projectData)), w))"
proof (intro conjI impI)
  assume "fs w (pathToPluginsBuildFile sv platform projectData) = None"
  then show "preparePluginNativeCode sv pluginData platform projectData w =
              (case hook_preparePluginNativeCode (getPlatformData sv platform projectData)
                      (withLowerCasePlatformsFolder pluginData) projectData (fs w) of
                 Inr u \<Rightarrow>
                   (Inr (),
                    \<lparr>fs = (fs w)(pathToPluginsBuildFile sv platform projectData \<mapsto>
                              PluginsBuildData [(pd_name pluginData, cur)]),
                     events = events w @
                       [PrepareNative platform (pd_name pluginData),
                        WriteJson (pathToPluginsBuildFile sv platform projectData)
                          (PluginsBuildData [(pd_name pluginData, cur)])]\<rparr>)
               | Inl e \<Rightarrow>
                   (Inl e, w\<lparr>events := events w @ [PrepareNative platform (pd_name pluginData)]\<rparr>))"
    using folder regular
    by (simp add: preparePluginNativeCode_def getAllPluginsNativeHashes_def Let_def io_bind_def
          io_lift_def io_call_def setPluginNativeHashes_def writeJson_def cur js_get_undefined
          js_set_regular split: sum.splits)
next
  assume "fs w (pathToPluginsBuildFile sv platform projectData) = Some Unparsable"
  then have "getAllPluginsNativeHashes (pathToPluginsBuildFile sv platform projectData) (fs w) =
      Inl (Rejected (''cannot read '' @ pathToPluginsBuildFile sv platform projectData))"
    by (simp add: getAllPluginsNativeHashes_def readJson_hashes_def)
  then show "preparePluginNativeCode sv pluginData platform projectData w =
      (Inl (Rejected (''cannot read '' @ pathToPluginsBuildFile sv platform projectData)), w)"
    using folder by (simp add: preparePluginNativeCode_def Let_def io_bind_def io_lift_def)
qed

theorem missing_ledger_is_empty_unreadable_ledger_raises_witness:
  "fst (preparePluginNativeCode (ex_sv [(''a.jar'', ''d1'')]) foo_plugin ''android'' ex_project
          (ex_world ex_fs)) = Inr ()
   \<and> events (snd (preparePluginNativeCode (ex_sv [(''a.jar'', ''d1'')]) foo_plugin ''android'' ex_project
          (ex_world ex_fs)))
     = [PrepareNative ''android'' ''foo'',
        WriteJson android_ledger (PluginsBuildData [(''foo'', [(''a.jar'', ''d1'')])])]"
  using missing_ledger_is_empty_unreadable_ledger_raises
    [where w = "ex_world ex_fs" and pluginData = foo_plugin and platform = "''android''"
       and cur = "[(''a.jar'', ''d1'')]" and sv = "ex_sv [(''a.jar'', ''d1'')]"
       and projectData = ex_project]
  by (simp add: cache_defs fs_defs ex_defs)

text \<open>
  C3 as stated fails: with a ledger file that cannot be read as a ledger, the pass raises
  the read error; no hook is called and no ledger is written.
\<close>

theorem unreadable_ledger_counterexample:
  "preparePluginNativeCode (ex_services (\<lambda>p. hook_ok) (\<lambda>p. hook_ok) [(''a.jar'', ''d1'')] plain_package)
     foo_plugin ''android'' ex_project \<lparr>fs = ex_fs(android_ledger \<mapsto> Unparsable), events = []\<rparr>
   = (Inl (Rejected ''cannot read /proj/platforms/android/plugins-build-data.json''),
      \<lparr>fs = ex_fs(android_ledger \<mapsto> Unparsable), events = []\<rparr>)"
  by (simp add: cache_defs fs_defs ex_defs io_defs Let_def)

text \<open>
  C10. Whatever the outcome of a prepare pass for a plugin, the digest-set that the
  platform's ledger file holds for any other plugin is the same after the pass as before.
\<close>

theorem prepare_keeps_other_ledger_entries:
  assumes other: "q \<noteq> pd_name pluginData"
  shows "ledgerEntry (fs (snd (preparePluginNativeCode sv pluginData platform projectData w)))
           (pathToPluginsBuildFile sv platform projectData) q
         = ledgerEntry (fs w) (pathToPluginsBuildFile sv platform projectData) q"
proof (cases "fs w (pluginPlatformsFolder pluginData platform) \<noteq> None")
  case False
  then show ?thesis by (simp add: preparePluginNativeCode_def Let_def)
next
  case True
  show ?thesis
  proof (cases "getAllPluginsNativeHashes (pathToPluginsBuildFile sv platform projectData) (fs w)")
    case (Inl e)
    with True show ?thesis
      by (simp add: preparePluginNativeCode_def Let_def io_bind_def io_lift_def)
  next
    case (Inr ledger)
    then have entry: "ledgerEntry (fs w) (pathToPluginsBuildFile sv platform projectData) q = map_of ledger q"
      by (auto simp: getAllPluginsNativeHashes_def readJson_hashes_def ledgerEntry_def
            split: if_splits option.splits fs_node.splits)
    have "fs (snd (preparePluginNativeCode sv pluginData platform projectData w)) = fs w
          \<or> (\<exists>cur. fs (snd (preparePluginNativeCode sv pluginData platform projectData w)) =
                 (fs w)(pathToPluginsBuildFile sv platform projectData \<mapsto>
                          PluginsBuildData (js_set (pd_name pluginData) cur ledger)))"
      using True Inr
      by (auto simp: preparePluginNativeCode_def Let_def io_bind_def io_lift_def io_call_def
            io_return_def setPluginNativeHashes_def writeJson_def split: sum.splits option.splits)
    then show ?thesis
    proof
      assume "fs (snd (preparePluginNativeCode sv pluginData platform projectData w)) = fs w"
      then show ?thesis by simp
    next
      assume "\<exists>cur. fs (snd (preparePluginNativeCode sv pluginData platform projectData w)) =
                 (fs w)(pathToPluginsBuildFile sv platform projectData \<mapsto>
                          PluginsBuildData (js_set (pd_name pluginData) cur ledger))"
      then obtain cur where
        "fs (snd (preparePluginNativeCode sv pluginData platform projectData w)) =
           (fs w)(pathToPluginsBuildFile sv platform projectData \<mapsto>
                    PluginsBuildData (js_set (pd_name pluginData) cur ledger))" ..
      then have "ledgerEntry (fs (snd (preparePluginNativeCode sv pluginData platform projectData w)))
           (pathToPluginsBuildFile sv platform projectData) q = map_of ledger q"
        using other by (simp add: ledgerEntry_def map_of_js_set_other)
      with entry show ?thesis by simp
    qed
  qed
qed

theorem prepare_keeps_other_ledger_entries_witness:
  "ledgerEntry
     (fs (snd (preparePluginNativeCode (ex_sv [(''a.jar'', ''d2'')]) foo_plugin ''android'' ex_project
                 (ex_world (ex_fs(android_ledger \<mapsto> PluginsBuildData ex_ledger))))))
     android_ledger ''bar''
   = Some [(''b.jar'', ''d9'')]"
  using prepare_keeps_other_ledger_entries
    [of "''bar''" foo_plugin "ex_sv [(''a.jar'', ''d2'')]" "''android''" ex_project
        "ex_world (ex_fs(android_ledger \<mapsto> PluginsBuildData ex_ledger))"]
  by (simp add: ledgerEntry_def pathToPluginsBuildFile_def ex_defs)

section \<open>Properties of the manifest mutator\<close>

text \<open>
  C9 at a failing input. The manifest of the example declares \<open>foo\<close> alone, so the name
  \<open>constructor\<close> is in neither section. \<open>removeFromPackageJson\<close> of that name writes the
  manifest all the same, with its content unchanged: the read
  \<open>packageJsonContent.dependencies[dependency]\<close> finds the inherited member, which is truthy,
  so the deletion, which removes nothing, is counted as a modification.
\<close>

theorem removeFromPackageJson_constructor_writes:
  "removeFromPackageJson ''constructor'' ''/proj'' (ex_world ex_fs)
   = (Inr (),
      \<lparr>fs = ex_fs(''/proj/package.json'' \<mapsto> PackageJsonFile ex_manifest),
       events = [WriteJson ''/proj/package.json'' (PackageJsonFile ex_manifest)]\<rparr>)"
  by (simp add: manifest_defs fs_defs ex_defs io_defs Let_def)

text \<open>
  For a name that is not the name of an inherited member the property holds: when the
  manifest is readable and the name is a key of neither section, \<open>removeFromPackageJson\<close>
  returns with the world as it found it.
\<close>

lemma removeFromPackageJson_absent_writes_nothing:
  assumes manifest: "fs w (getPackageJsonFilePath dir) = Some (PackageJsonFile c)"
    and regular: "plugin \<notin> set object_prototype_members"
    and nodep: "plugin \<notin> set (dict_keys (pj_dependencies c))"
    and nodev: "plugin \<notin> set (dict_keys (pj_devDependencies c))"
  shows "removeFromPackageJson plugin dir w = (Inr (), w)"
proof -
  have "removeDependencyFromPackageJsonContent plugin c = (False, c)"
    using truthy_entry_absent [OF nodep regular] truthy_entry_absent [OF nodev regular]
    by (simp add: removeDependencyFromPackageJsonContent_def)
  then show ?thesis
    using manifest
    by (simp add: removeFromPackageJson_def Let_def io_bind_def io_lift_def io_return_def
          readJson_package_def)
qed

text \<open>
  C7 at a failing input. On a manifest without sections, \<open>addToPackageJson\<close> of \<open>p\<close> with the
  empty version as a dev dependency and then with version \<open>1.0.0\<close> as a dependency leaves
  \<open>p\<close> in both sections: the test for the opposite section is on the truthiness of the
  stored version, and the empty string is not truthy.
\<close>

theorem addToPackageJson_empty_version_in_both_sections:
  "fs (snd (io_bind (addToPackageJson ''p'' '''' True ''/proj'')
                    (\<lambda>_. addToPackageJson ''p'' ''1.0.0'' False ''/proj'')
              (ex_world [''/proj/package.json'' \<mapsto> PackageJsonFile bare_manifest])))
      ''/proj/package.json''
   = Some (PackageJsonFile
       \<lparr>pj_name = ''proj'', pj_version = ''0.1.0'',
        pj_dependencies = Some [(''p'', ''1.0.0'')],
        pj_devDependencies = Some [(''p'', '''')], pj_nativescript = None\<rparr>)"
  by (simp add: manifest_defs fs_defs io_defs ex_defs Let_def)

text \<open>
  With a first version that is not empty, and a name that is not the name of an inherited
  member, the two calls do leave the name in the dependencies section only, at the second
  version.
\<close>

lemma addToPackageJson_dev_then_prod:
  assumes manifest: "fs w (getPackageJsonFilePath dir) = Some (PackageJsonFile c)"
    and v: "v \<noteq> []"
    and regular: "plugin \<notin> set object_prototype_members"
  shows "\<exists>c'. fs (snd (io_bind (addToPackageJson plugin v True dir)
                            (\<lambda>_. addToPackageJson plugin v2 False dir) w))
               (getPackageJsonFilePath dir) = Some (PackageJsonFile c')
            \<and> map_of (case pj_dependencies c' of None \<Rightarrow> [] | Some d \<Rightarrow> d) plugin = Some v2
            \<and> plugin \<notin> set (dict_keys (pj_devDependencies c'))"
  using manifest v
  by (auto simp: manifest_defs readJson_package_def writeJson_def getPackageJsonFilePath_def
        dict_keys_def io_defs Let_def js_get_def js_set_regular [OF regular] update_conv'
        delete_notin_dom split: option.splits if_splits)

section \<open>Properties of the version compatibility validator\<close>

text \<open>
  C6, as amended. The installed framework version is at hand and the platform is not the
  name of an inherited member. A plugin that declares no platform requirements at all is
  valid, with no warning. A plugin that declares requirements but none, or an empty one,
  for this platform is invalid, with the warning "is not supported for". Otherwise the
  required and the installed version go to \<open>semver.gt\<close>: when it raises, the check raises
  that error; when the required version is greater, the plugin is invalid, with a warning
  naming both versions; else the plugin is valid, with no warning.
\<close>

theorem isPluginDataValidForPlatform_outcomes:
  assumes installed: "getInstalledFrameworkVersion sv platform projectData (fs w) = Inr installed"
    and regular: "platform \<notin> set object_prototype_members"
  shows "(pd_platformsDataService pluginData = None \<longrightarrow>
            isPluginDataValidForPlatform sv pluginData platform projectData w = (Inr True, w))
       \<and> (\<forall>reqs. pd_platformsDataService pluginData = Some reqs \<longrightarrow>
            (map_of reqs platform = None \<or> map_of reqs platform = Some []) \<longrightarrow>
            isPluginDataValidForPlatform sv pluginData platform projectData w =
              (Inr False, w\<lparr>events := events w @
                 [LogWarn (pd_name pluginData @ '' is not supported for '' @ platform @ ''.'')]\<rparr>))
       \<and> (\<forall>reqs v. pd_platformsDataService pluginData = Some reqs \<longrightarrow>
            map_of reqs platform = Some v \<longrightarrow> v \<noteq> [] \<longrightarrow>
            isPluginDataValidForPlatform sv pluginData platform projectData w =
              (case semver_gt sv v installed of
                 Inl e \<Rightarrow> (Inl e, w)
               | Inr True \<Rightarrow>
                   (Inr False, w\<lparr>events := events w @
                      [LogWarn (pd_name pluginData @ '' requires at least version '' @ v
                                @ '' of platform '' @ platform @ ''. Currently installed version is ''
                                @ installed @ ''.'')]\<rparr>)
               | Inr False \<Rightarrow> (Inr True, w)))"
  using installed regular
  by (auto simp: isPluginDataValidForPlatform_def io_bind_def io_lift_def io_return_def io_emit_def
        io_throw_def js_get_own js_get_undefined split: sum.splits bool.splits)

theorem isPluginDataValidForPlatform_outcomes_witness:
  "isPluginDataValidForPlatform (ex_sv []) foo_plugin ''ios'' ex_project (ex_world ex_fs)
   = (Inr False,
      \<lparr>fs = ex_fs,
       events = [LogWarn ''foo requires at least version 6.0.0 of platform ios. Currently installed version is 5.2.0.'']\<rparr>)"
  using isPluginDataValidForPlatform_outcomes
    [of "ex_sv []" "''ios''" ex_project "ex_world ex_fs" "''5.2.0''" foo_plugin]
  by (simp add: validator_defs fs_defs ex_defs io_defs)

text \<open>
  C6 as stated fails: a plugin whose metadata declares no platform requirements has no
  requirement for ios, and the check returns true without a warning.
\<close>

theorem no_platforms_declared_counterexample:
  "isPluginDataValidForPlatform (ex_sv []) (foo_plugin\<lparr>pd_platformsDataService := None\<rparr>)
     ''ios'' ex_project (ex_world ex_fs)
   = (Inr True, ex_world ex_fs)"
  by (simp add: validator_defs ex_defs io_defs)

text \<open>
  A requirement that is no semantic version makes the check raise: with \<open>6.0\<close> required for
  ios the comparison rejects the string, and no value is returned.
\<close>

lemma invalid_requirement_raises:
  "isPluginDataValidForPlatform (ex_sv []) (foo_plugin\<lparr>pd_platformsDataService := Some [(''ios'', ''6.0'')]\<rparr>)
     ''ios'' ex_project (ex_world ex_fs)
   = (Inl (Rejected ''TypeError: Invalid Version''), ex_world ex_fs)"
  by (simp add: validator_defs fs_defs ex_defs io_defs)

section \<open>Properties of the remover\<close>

text \<open>The first action of \<open>remove\<close>, and its pass over the platforms while every hook returns.\<close>

lemma removePluginNativeCodeAction_run:
  assumes "pluginDataOfModule sv pluginName projectData (fs w) = Inr pluginData"
  shows "removePluginNativeCodeAction sv pluginName projectData dest platform platformData u w =
           (hook_removePluginNativeCode platformData pluginData projectData (fs w),
            w\<lparr>events := events w @ [RemoveNative platform (pd_name pluginData)]\<rparr>)"
  using assms
  by (simp add: removePluginNativeCodeAction_def pluginDataOfModule_def io_bind_def io_lift_def io_call_def)

lemma first_pass_all_hooks_return:
  assumes "pluginDataOfModule sv pluginName projectData (fs w) = Inr pluginData"
    and "\<forall>p \<in> set ps. fs w (path_join [platformsDir projectData, toLowerCase p]) \<noteq> None \<longrightarrow>
           hook_removePluginNativeCode (getPlatformData sv (toLowerCase p) projectData)
             pluginData projectData (fs w) = Inr ()"
  shows "forEachPlatform sv projectData (removePluginNativeCodeAction sv pluginName projectData) ps () w =
           (Inr (),
            w\<lparr>events := events w @
                 map (\<lambda>p. RemoveNative (toLowerCase p) (pd_name pluginData))
                   (filter (\<lambda>p. fs w (path_join [platformsDir projectData, toLowerCase p]) \<noteq> None) ps)\<rparr>)"
  using assms
proof (induction ps arbitrary: w)
  case Nil
  then show ?case by simp
next
  case (Cons p ps)
  show ?case
  proof (cases "fs w (path_join [platformsDir projectData, toLowerCase p]) \<noteq> None")
    case False
    with Cons show ?thesis by simp
  next
    case True
    let ?w1 = "w\<lparr>events := events w @ [RemoveNative (toLowerCase p) (pd_name pluginData)]\<rparr>"
    have hook: "hook_removePluginNativeCode (getPlatformData sv (toLowerCase p) projectData)
                  pluginData projectData (fs w) = Inr ()"
      using Cons.prems(2) True by simp
    have step: "forEachPlatform sv projectData (removePluginNativeCodeAction sv pluginName projectData)
                  (p # ps) () w =
                forEachPlatform sv projectData (removePluginNativeCodeAction sv pluginName projectData)
                  ps () ?w1"
      using True hook by (simp add: removePluginNativeCodeAction_run [OF Cons.prems(1)] Let_def)
    have "forEachPlatform sv projectData (removePluginNativeCodeAction sv pluginName projectData) ps () ?w1 =
           (Inr (),
            ?w1\<lparr>events := events ?w1 @
                 map (\<lambda>p. RemoveNative (toLowerCase p) (pd_name pluginData))
                   (filter (\<lambda>p. fs ?w1 (path_join [platformsDir projectData, toLowerCase p]) \<noteq> None) ps)\<rparr>)"
      by (rule Cons.IH) (use Cons.prems in simp_all)
    with step True show ?thesis by simp
  qed
qed

text \<open>The pass stops at the first installed platform whose hook raises.\<close>

lemma first_pass_hook_raises:
  assumes "pluginDataOfModule sv pluginName projectData (fs w) = Inr pluginData"
    and "filter (\<lambda>p. fs w (path_join [platformsDir projectData, toLowerCase p]) \<noteq> None) ps
           = qs1 @ q # qs2"
    and "\<forall>p \<in> set qs1.
           hook_removePluginNativeCode (getPlatformData sv (toLowerCase p) projectData)
             pluginData projectData (fs w) = Inr ()"
    and "hook_removePluginNativeCode (getPlatformData sv (toLowerCase q) projectData)
             pluginData projectData (fs w) = Inl e"
  shows "forEachPlatform sv projectData (removePluginNativeCodeAction sv pluginName projectData) ps () w =
           (Inl e,
            w\<lparr>events := events w @
                 map (\<lambda>p. RemoveNative (toLowerCase p) (pd_name pluginData)) (qs1 @ [q])\<rparr>)"
  using assms
proof (induction ps arbitrary: w qs1)
  case Nil
  then show ?case by simp
next
  case (Cons p ps)
  note IH = Cons.IH and prems = Cons.prems
  show ?case
  proof (cases "fs w (path_join [platformsDir projectData, toLowerCase p]) \<noteq> None")
    case False
    with prems have "filter (\<lambda>p. fs w (path_join [platformsDir projectData, toLowerCase p]) \<noteq> None) ps
           = qs1 @ q # qs2" by simp
    from IH [OF prems(1) this prems(3) prems(4)] False
    show ?thesis by simp
  next
    case True
    with prems(2) have split:
      "p # filter (\<lambda>p. fs w (path_join [platformsDir projectData, toLowerCase p]) \<noteq> None) ps
         = qs1 @ q # qs2" by simp
    show ?thesis
    proof (cases qs1)
      case Nil
      with split have "p = q" by simp
      with Nil True prems(4) show ?thesis
        by (simp add: removePluginNativeCodeAction_run [OF prems(1)] Let_def)
    next
      case (Cons x qs1')
      with split have px: "x = p"
        and rest: "filter (\<lambda>p. fs w (path_join [platformsDir projectData, toLowerCase p]) \<noteq> None) ps
                     = qs1' @ q # qs2" by simp_all
      let ?w1 = "w\<lparr>events := events w @ [RemoveNative (toLowerCase p) (pd_name pluginData)]\<rparr>"
      have hook: "hook_removePluginNativeCode (getPlatformData sv (toLowerCase p) projectData)
                  pluginData projectData (fs w) = Inr ()"
        using prems(3) Cons px by simp
      have step: "forEachPlatform sv projectData (removePluginNativeCodeAction sv pluginName projectData)
                  (p # ps) () w =
                forEachPlatform sv projectData (removePluginNativeCodeAction sv pluginName projectData)
                  ps () ?w1"
        using True hook by (simp add: removePluginNativeCodeAction_run [OF prems(1)] Let_def)
      have "forEachPlatform sv projectData (removePluginNativeCodeAction sv pluginName projectData) ps () ?w1 =
           (Inl e,
            ?w1\<lparr>events := events ?w1 @
                 map (\<lambda>p. RemoveNative (toLowerCase p) (pd_name pluginData)) (qs1' @ [q])\<rparr>)"
        by (rule IH) (use prems rest Cons in simp_all)
      with step Cons px show ?thesis by simp
    qed
  qed
qed

text \<open>The second action of \<open>remove\<close>, and its pass over the platforms.\<close>

lemma removeDirectoryAction_run:
  "removeDirectoryAction pluginName dest platform platformData s w =
     (Inr False,
      \<lparr>fs = (\<lambda>q. if removes (path_join [dest, pluginName]) q then None else fs w q),
       events = events w @
         [RmRf (path_join [dest, pluginName]),
          LogInfo (''Successfully removed plugin '' @ pluginName @ '' for '' @ platform @ ''.'')]\<rparr>)"
  by (simp add: removeDirectoryAction_def shelljs_rm_rf_def io_bind_def io_emit_def io_return_def
        removes_def)

lemma second_pass_deletes:
  assumes "\<forall>p \<in> set ps. \<forall>q \<in> set ps.
             \<not> removes (path_join [modulesDestinationPath sv projectData (toLowerCase q), pluginName])
                 (path_join [platformsDir projectData, toLowerCase p])"
  shows "fst (forEachPlatform sv projectData (removeDirectoryAction pluginName) ps s w) =
           Inr (if filter (\<lambda>p. fs w (path_join [platformsDir projectData, toLowerCase p]) \<noteq> None) ps = []
                then s else False)
       \<and> events (snd (forEachPlatform sv projectData (removeDirectoryAction pluginName) ps s w)) =
           events w @
           concat (map (\<lambda>p. [RmRf (path_join [modulesDestinationPath sv projectData (toLowerCase p), pluginName]),
                              LogInfo (''Successfully removed plugin '' @ pluginName @ '' for ''
                                       @ toLowerCase p @ ''.'')])
                     (filter (\<lambda>p. fs w (path_join [platformsDir projectData, toLowerCase p]) \<noteq> None) ps))"
  using assms
proof (induction ps arbitrary: s w)
  case Nil
  then show ?case by simp
next
  case (Cons p ps)
  note IH = Cons.IH and apart = Cons.prems
  have apart': "\<forall>p \<in> set ps. \<forall>q \<in> set ps.
             \<not> removes (path_join [modulesDestinationPath sv projectData (toLowerCase q), pluginName])
                 (path_join [platformsDir projectData, toLowerCase p])"
    using apart by simp
  show ?case
  proof (cases "fs w (path_join [platformsDir projectData, toLowerCase p]) \<noteq> None")
    case False
    with IH [OF apart', of s w] show ?thesis by simp
  next
    case True
    let ?dir = "path_join [modulesDestinationPath sv projectData (toLowerCase p), pluginName]"
    let ?w1 = "\<lparr>fs = (\<lambda>q. if removes ?dir q then None else fs w q),
                events = events w @
                  [RmRf ?dir,
                   LogInfo (''Successfully removed plugin '' @ pluginName @ '' for ''
                            @ toLowerCase p @ ''.'')]\<rparr>"
    have step: "forEachPlatform sv projectData (removeDirectoryAction pluginName) (p # ps) s w =
                forEachPlatform sv projectData (removeDirectoryAction pluginName) ps False ?w1"
      using True by (simp add: removeDirectoryAction_run Let_def modulesDestinationPath_def)
    have same: "filter (\<lambda>p. fs ?w1 (path_join [platformsDir projectData, toLowerCase p]) \<noteq> None) ps
              = filter (\<lambda>p. fs w (path_join [platformsDir projectData, toLowerCase p]) \<noteq> None) ps"
      using apart by (intro filter_cong) auto
    from IH [OF apart', of False ?w1] step True same show ?thesis by simp
  qed
qed

text \<open>
  C4, as amended. A failure of a platform's native-code-removal hook is not caught. When
  the hooks of the installed platforms before \<open>p\<close> return and the hook of \<open>p\<close> raises, \<open>remove\<close>
  raises that error at once: the hooks of the platforms after \<open>p\<close> are not called, the
  package manager's uninstall is not called, nothing is deleted, and the file system is
  unchanged.
\<close>

theorem remove_stops_at_failing_hook:
  assumes plugin: "pluginDataOfModule sv pluginName projectData (fs w) = Inr pluginData"
    and installed: "installedPlatforms sv projectData (fs w) = ps1 @ p # ps2"
    and before: "\<forall>q \<in> set ps1.
                   hook_removePluginNativeCode (getPlatformData sv q projectData)
                     pluginData projectData (fs w) = Inr ()"
    and raises: "hook_removePluginNativeCode (getPlatformData sv p projectData)
                   pluginData projectData (fs w) = Inl e"
  shows "remove sv pluginName projectData w =
           (Inl e,
            w\<lparr>events := events w @ map (\<lambda>q. RemoveNative q (pd_name pluginData)) (ps1 @ [p])\<rparr>)"
proof -
  have lower: "\<forall>q \<in> set (ps1 @ [p]). toLowerCase q = q"
    using installedPlatforms_lower [of _ sv projectData "fs w"] installed by auto
  have pass: "forEachPlatform sv projectData (removePluginNativeCodeAction sv pluginName projectData)
                (map toLowerCase (platformNames sv)) () w =
              (Inl e,
               w\<lparr>events := events w @
                    map (\<lambda>q. RemoveNative (toLowerCase q) (pd_name pluginData)) (ps1 @ [p])\<rparr>)"
    using plugin installed before raises lower
    by (intro first_pass_hook_raises [where ?qs2.0 = ps2]) (auto simp: installedPlatforms_def)
  have "map (\<lambda>q. RemoveNative (toLowerCase q) (pd_name pluginData)) (ps1 @ [p])
        = map (\<lambda>q. RemoveNative q (pd_name pluginData)) (ps1 @ [p])"
    using lower by (intro map_cong) auto
  with pass show ?thesis
    by (simp add: remove_def executeForAllInstalledPlatforms_def executeNpmCommand_def io_bind_def)
qed

theorem remove_stops_at_failing_hook_witness:
  "remove (ex_sv_failing_remove ''ios'') ''foo'' ex_project (ex_world ex_fs)
   = (Inl (Rejected ''native project failure''),
      \<lparr>fs = ex_fs, events = [RemoveNative ''android'' ''foo'', RemoveNative ''ios'' ''foo'']\<rparr>)"
proof -
  let ?sv = "ex_sv_failing_remove ''ios''"
  have plugin: "pluginDataOfModule ?sv ''foo'' ex_project (fs (ex_world ex_fs)) = Inr foo_plugin"
    by (simp add: classifier_defs fs_defs ex_defs io_defs Let_def)
  have installed: "installedPlatforms ?sv ex_project (fs (ex_world ex_fs)) = [''android''] @ ''ios'' # []"
    by (simp add: installedPlatforms_def fs_defs ex_defs)
  have before: "\<forall>q \<in> set [''android''].
      hook_removePluginNativeCode (getPlatformData ?sv q ex_project) foo_plugin ex_project
        (fs (ex_world ex_fs)) = Inr ()"
    by (simp add: ex_defs)
  have raises: "hook_removePluginNativeCode (getPlatformData ?sv ''ios'' ex_project) foo_plugin ex_project
        (fs (ex_world ex_fs)) = Inl (Rejected ''native project failure'')"
    by (simp add: ex_defs)
  from remove_stops_at_failing_hook [OF plugin installed before raises]
  show ?thesis by (simp add: ex_defs)
qed

text \<open>
  C4 as stated fails: with android and ios installed and a hook that raises on android,
  \<open>remove\<close> raises the hook's error after that one call; ios is not processed and the
  package manager is not called.
\<close>

theorem remove_hook_failure_counterexample:
  "remove (ex_sv_failing_remove ''android'') ''foo'' ex_project (ex_world ex_fs)
   = (Inl (Rejected ''native project failure''),
      \<lparr>fs = ex_fs, events = [RemoveNative ''android'' ''foo'']\<rparr>)"
  by (simp add: loop_defs classifier_defs fs_defs observer_defs ex_defs io_defs Let_def)

text \<open>
  C8, as amended. With the plugin's metadata readable, every hook of an installed platform
  returning, the uninstall returning, and no module-destination directory of the plugin
  lying above a platform directory, \<open>remove\<close> returns after these calls, in this order: the
  native-code-removal hook for every installed platform, in enumeration order; the package
  manager's uninstall, once; then, for every platform installed after the uninstall, in
  enumeration order, \<open>rm -rf\<close> of the plugin's directory under the platform's
  module-destination path (present or not) and a log line; and a general log line when no
  platform is installed.
\<close>

theorem remove_order_of_steps:
  assumes plugin: "pluginDataOfModule sv pluginName projectData (fs w) = Inr pluginData"
    and hooks: "\<forall>p \<in> set (installedPlatforms sv projectData (fs w)).
                  hook_removePluginNativeCode (getPlatformData sv p projectData)
                    pluginData projectData (fs w) = Inr ()"
    and uninstall: "pm_uninstall sv pluginName (projectDir projectData) (fs w) = (Inr (), f2)"
    and apart: "\<forall>p \<in> set (map toLowerCase (platformNames sv)).
                \<forall>q \<in> set (map toLowerCase (platformNames sv)).
                  \<not> removes (path_join [modulesDestinationPath sv projectData q, pluginName])
                      (path_join [platformsDir projectData, p])"
  shows "fst (remove sv pluginName projectData w) = Inr ()
       \<and> events (snd (remove sv pluginName projectData w)) =
           events w
           @ map (\<lambda>p. RemoveNative p (pd_name pluginData)) (installedPlatforms sv projectData (fs w))
           @ [PmUninstall pluginName (projectDir projectData)]
           @ concat (map (\<lambda>p. [RmRf (path_join [modulesDestinationPath sv projectData p, pluginName]),
                                LogInfo (''Successfully removed plugin '' @ pluginName @ '' for '' @ p @ ''.'')])
                       (installedPlatforms sv projectData f2))
           @ (if installedPlatforms sv projectData f2 = []
              then [LogInfo (''Successfully removed plugin '' @ pluginName)] else [])"
proof -
  let ?P = "map toLowerCase (platformNames sv)"
  let ?hooks = "map (\<lambda>p. RemoveNative p (pd_name pluginData)) (installedPlatforms sv projectData (fs w))"
  let ?w1 = "w\<lparr>events := events w @ ?hooks\<rparr>"
  let ?w2 = "\<lparr>fs = f2, events = events w @ ?hooks @ [PmUninstall pluginName (projectDir projectData)]\<rparr>"
  have "forEachPlatform sv projectData (removePluginNativeCodeAction sv pluginName projectData) ?P () w =
          (Inr (),
           w\<lparr>events := events w @
                map (\<lambda>p. RemoveNative (toLowerCase p) (pd_name pluginData))
                  (filter (\<lambda>p. fs w (path_join [platformsDir projectData, toLowerCase p]) \<noteq> None) ?P)\<rparr>)"
    using plugin hooks
    by (intro first_pass_all_hooks_return) (auto simp: installedPlatforms_def)
  moreover have "map (\<lambda>p. RemoveNative (toLowerCase p) (pd_name pluginData))
                  (filter (\<lambda>p. fs w (path_join [platformsDir projectData, toLowerCase p]) \<noteq> None) ?P)
               = ?hooks"
    by (auto simp: installedPlatforms_def)
  ultimately have pass1:
    "forEachPlatform sv projectData (removePluginNativeCodeAction sv pluginName projectData) ?P () w =
       (Inr (), ?w1)" by simp
  have npm: "executeNpmCommand sv ''uninstall'' pluginName projectData ?w1 =
               (Inr (parseNpmCommandResult pluginName), ?w2)"
    using uninstall by (simp add: executeNpmCommand_def io_bind_def io_external_def io_return_def)
  have apart2: "\<forall>p \<in> set ?P. \<forall>q \<in> set ?P.
             \<not> removes (path_join [modulesDestinationPath sv projectData (toLowerCase q), pluginName])
                 (path_join [platformsDir projectData, toLowerCase p])"
    using apart by auto
  note pass2 = second_pass_deletes [OF apart2, of True ?w2]
  have inst2: "filter (\<lambda>p. fs ?w2 (path_join [platformsDir projectData, toLowerCase p]) \<noteq> None) ?P
               = installedPlatforms sv projectData f2"
    by (simp add: installedPlatforms_def)
  have dels: "concat (map (\<lambda>p. [RmRf (path_join [modulesDestinationPath sv projectData (toLowerCase p), pluginName]),
                              LogInfo (''Successfully removed plugin '' @ pluginName @ '' for ''
                                       @ toLowerCase p @ ''.'')])
                     (installedPlatforms sv projectData f2))
            = concat (map (\<lambda>p. [RmRf (path_join [modulesDestinationPath sv projectData p, pluginName]),
                                LogInfo (''Successfully removed plugin '' @ pluginName @ '' for '' @ p @ ''.'')])
                       (installedPlatforms sv projectData f2))"
    by (intro arg_cong [where f = concat] map_cong) (auto simp: installedPlatforms_lower)
  obtain r3 w3 where run3:
    "forEachPlatform sv projectData (removeDirectoryAction pluginName) ?P True ?w2 = (r3, w3)"
    by (cases "forEachPlatform sv projectData (removeDirectoryAction pluginName) ?P True ?w2")
  from pass2 run3 inst2 dels have r3: "r3 = Inr (installedPlatforms sv projectData f2 = [])"
    and ev3: "events w3 = events ?w2
           @ concat (map (\<lambda>p. [RmRf (path_join [modulesDestinationPath sv projectData p, pluginName]),
                                LogInfo (''Successfully removed plugin '' @ pluginName @ '' for '' @ p @ ''.'')])
                       (installedPlatforms sv projectData f2))"
    by auto
  have "remove sv pluginName projectData w =
          (if installedPlatforms sv projectData f2 = []
           then io_emit (LogInfo (''Successfully removed plugin '' @ pluginName)) w3
           else (Inr (), w3))"
    using pass1 npm run3 r3
    by (simp add: remove_def executeForAllInstalledPlatforms_def executeNpmCommand_def io_bind_def io_return_def)
  with ev3 show ?thesis
    by (simp add: io_emit_def)
qed

theorem remove_order_of_steps_witness:
  "fst (remove (ex_sv []) ''foo'' ex_project (ex_world ex_fs)) = Inr ()
   \<and> events (snd (remove (ex_sv []) ''foo'' ex_project (ex_world ex_fs)))
     = [RemoveNative ''android'' ''foo'',
        RemoveNative ''ios'' ''foo'',
        PmUninstall ''foo'' ''/proj'',
        RmRf ''/proj/platforms/android/assets/app/tns_modules/foo'',
        LogInfo ''Successfully removed plugin foo for android.'',
        RmRf ''/proj/platforms/ios/assets/app/tns_modules/foo'',
        LogInfo ''Successfully removed plugin foo for ios.'']"
proof -
  let ?sv = "ex_sv []"
  let ?f2 = "snd (pm_uninstall ?sv ''foo'' ''/proj'' ex_fs)"
  have plugin: "pluginDataOfModule ?sv ''foo'' ex_project (fs (ex_world ex_fs)) = Inr foo_plugin"
    by (simp add: classifier_defs fs_defs ex_defs io_defs Let_def)
  have installed: "installedPlatforms ?sv ex_project (fs (ex_world ex_fs)) = [''android'', ''ios'']"
    by (simp add: installedPlatforms_def fs_defs ex_defs)
  have hooks: "\<forall>p \<in> set (installedPlatforms ?sv ex_project (fs (ex_world ex_fs))).
      hook_removePluginNativeCode (getPlatformData ?sv p ex_project) foo_plugin ex_project
        (fs (ex_world ex_fs)) = Inr ()"
    unfolding installed by (simp add: ex_defs)
  have uninstall: "pm_uninstall ?sv ''foo'' (projectDir ex_project) (fs (ex_world ex_fs)) = (Inr (), ?f2)"
    by (simp add: ex_defs)
  have apart: "\<forall>p \<in> set (map toLowerCase (platformNames ?sv)).
               \<forall>q \<in> set (map toLowerCase (platformNames ?sv)).
                 \<not> removes (path_join [modulesDestinationPath ?sv ex_project q, ''foo''])
                     (path_join [platformsDir ex_project, p])"
    by (simp add: removes_def modulesDestinationPath_def fs_defs ex_defs)
  have installed2: "installedPlatforms ?sv ex_project ?f2 = [''android'', ''ios'']"
    by (simp add: installedPlatforms_def fs_defs manifest_defs ex_defs Let_def)
  from remove_order_of_steps [OF plugin hooks uninstall apart]
  show ?thesis
    unfolding installed installed2
    by (simp add: modulesDestinationPath_def ex_defs)
qed

text \<open>
  C8 as stated fails: with android alone installed, the directory of the plugin is deleted
  after the package manager's uninstall, not before it.
\<close>

theorem remove_order_counterexample:
  "events (snd (remove (ex_sv []) ''foo'' ex_project (ex_world (ex_fs(''/proj/platforms/ios'' := None)))))
   = [RemoveNative ''android'' ''foo'',
      PmUninstall ''foo'' ''/proj'',
      RmRf ''/proj/platforms/android/assets/app/tns_modules/foo'',
      LogInfo ''Successfully removed plugin foo for android.'']"
  by (simp add: loop_defs classifier_defs fs_defs observer_defs manifest_defs ex_defs io_defs Let_def)

section \<open>Properties of the installer\<close>

text \<open>
  C5. The dependencies are ensured, the package manager installs the specifier and returns
  a package name, the metadata of that package is read and has no \<open>nativescript\<close> key, and
  the package manager's uninstall of the package's own name returns, leaving the manifest
  without an entry for it. Then \<open>add\<close> has called the uninstall with that name right after
  the install, raises the validation error whose message starts with the specifier (as
  handed to the package manager: the resolved path when the specifier is an existing local
  \<open>.tgz\<close> archive), and leaves the file system as the uninstall left it, so the manifest
  has no entry for the package.
\<close>

theorem add_rejects_package_without_nativescript_key:
  assumes ens: "ensure sv projectData w = (Inr (), w1)"
    and inst: "pm_install sv (resolvedSpecifier sv plugin (fs w1)) (projectDir projectData)
                 (npmInstallOptions sv) (fs w1) = (Inr name, f2)"
    and found: "getPackageJsonFilePathForModule sv name (projectDir projectData) f2 = Inr p"
    and read: "readJson_package p f2 = Inr realNpmPackageJson"
    and nokey: "pj_nativescript realNpmPackageJson = None"
    and unin: "pm_uninstall sv (pj_name realNpmPackageJson) (projectDir projectData) f2 = (Inr (), f3)"
    and saved: "\<not> manifestDeclares f3 (projectDir projectData) (pj_name realNpmPackageJson)"
  shows "add sv plugin projectData w =
           (Inl (ErrorsFail (resolvedSpecifier sv plugin (fs w1) @
              '' is not a valid NativeScript plugin. Verify that the plugin package.json file contains a nativescript key and try again.'')),
            \<lparr>fs = f3,
             events = events w1 @
               [PmInstall (resolvedSpecifier sv plugin (fs w1)) (projectDir projectData),
                PmUninstall (pj_name realNpmPackageJson) (projectDir projectData)]\<rparr>)
       \<and> \<not> manifestDeclares (fs (snd (add sv plugin projectData w))) (projectDir projectData)
             (pj_name realNpmPackageJson)"
proof -
  have run: "add sv plugin projectData w =
           (Inl (ErrorsFail (resolvedSpecifier sv plugin (fs w1) @
              '' is not a valid NativeScript plugin. Verify that the plugin package.json file contains a nativescript key and try again.'')),
            \<lparr>fs = f3,
             events = events w1 @
               [PmInstall (resolvedSpecifier sv plugin (fs w1)) (projectDir projectData),
                PmUninstall (pj_name realNpmPackageJson) (projectDir projectData)]\<rparr>)"
    using ens inst found read nokey unin
    by (simp add: add_def Let_def io_bind_def io_external_def io_lift_def io_throw_def)
  with saved show ?thesis by simp
qed

theorem add_rejects_package_without_nativescript_key_witness:
  "fst (add (ex_sv []) ''plain'' ex_project (ex_world ex_fs)) =
     Inl (ErrorsFail ''plain is not a valid NativeScript plugin. Verify that the plugin package.json file contains a nativescript key and try again.'')
   \<and> events (snd (add (ex_sv []) ''plain'' ex_project (ex_world ex_fs))) =
       [EnsureDirectoryExists ''/proj/node_modules'', PmInstall ''plain'' ''/proj'', PmUninstall ''plain'' ''/proj'']
   \<and> \<not> manifestDeclares (fs (snd (add (ex_sv []) ''plain'' ex_project (ex_world ex_fs)))) ''/proj'' ''plain''"
proof -
  let ?sv = "ex_sv []"
  let ?w1 = "\<lparr>fs = ex_fs, events = [EnsureDirectoryExists ''/proj/node_modules'']\<rparr>"
  let ?f2 = "snd (pm_install ?sv ''plain'' ''/proj'' (npmInstallOptions ?sv) ex_fs)"
  let ?f3 = "snd (pm_uninstall ?sv ''plain'' ''/proj'' ?f2)"
  have ens: "ensure ?sv ex_project (ex_world ex_fs) = (Inr (), ?w1)"
    by (simp add: loop_defs classifier_defs fs_defs observer_defs ex_defs io_defs Let_def)
  have spec: "resolvedSpecifier ?sv ''plain'' ex_fs = ''plain''"
    by (simp add: resolvedSpecifier_def ex_defs Let_def)
  have inst: "pm_install ?sv (resolvedSpecifier ?sv ''plain'' (fs ?w1)) (projectDir ex_project)
                (npmInstallOptions ?sv) (fs ?w1) = (Inr ''plain'', ?f2)"
    by (simp add: spec) (simp add: ex_defs)
  have found: "getPackageJsonFilePathForModule ?sv ''plain'' (projectDir ex_project) ?f2
                 = Inr ''/proj/node_modules/plain/package.json''"
    by (simp add: fs_defs ex_defs Let_def)
  have read: "readJson_package ''/proj/node_modules/plain/package.json'' ?f2 = Inr plain_package"
    by (simp add: fs_defs classifier_defs ex_defs Let_def)
  have nokey: "pj_nativescript plain_package = None"
    by (simp add: ex_defs)
  have unin: "pm_uninstall ?sv (pj_name plain_package) (projectDir ex_project) ?f2 = (Inr (), ?f3)"
    by (simp add: ex_defs)
  have saved: "\<not> manifestDeclares ?f3 (projectDir ex_project) (pj_name plain_package)"
    by (simp add: observer_defs manifest_defs fs_defs ex_defs Let_def)
  have dir: "projectDir ex_project = ''/proj''" and nm: "pj_name plain_package = ''plain''"
    by (simp_all add: ex_defs)
  from add_rejects_package_without_nativescript_key [OF ens inst found read nokey unin saved] saved
  show ?thesis
    by (simp add: spec dir nm)
qed

end
